theory Spec2Isabelle
  imports Main "HOL-Library.Word"
begin

section \<open>The desktop shell of the gateway: a model of apps/windows/main.cjs\<close>

text \<open>
  The shell keeps its state in module-level variables and acts on the outside world through
  Node and Electron calls. The model passes one record of state through every function of
  the source: the module variables, and a log of each call that reaches the outside world
  (files written, processes spawned, signals sent, timers set, pages loaded).

  A JavaScript string is modelled as the list of the bytes of its UTF-8 encoding, so an ASCII
  character is one \<^typ>\<open>char\<close> and the text literals of the source read as they
  are written.
\<close>

subsection \<open>Numbers as text\<close>

definition digitChar :: "nat \<Rightarrow> char" where
  "digitChar n = ''0123456789'' ! n"

text \<open>\<^verbatim>\<open>String(n)\<close> for a natural number: its decimal digits.\<close>

fun decimal :: "nat \<Rightarrow> string" where
  "decimal n = (if n < 10 then [digitChar n] else decimal (n div 10) @ [digitChar (n mod 10)])"

declare decimal.simps [simp del]

text \<open>The same for an integer (an exit code, an Electron error code).\<close>

definition showInt :: "int \<Rightarrow> string" where
  "showInt i = (if i < 0 then CHR ''-'' # decimal (nat (- i)) else decimal (nat i))"

subsection \<open>Buffers as hexadecimal text\<close>

definition hexDigit :: "nat \<Rightarrow> char" where
  "hexDigit n = ''0123456789abcdef'' ! n"

definition hexByte :: "8 word \<Rightarrow> string" where
  "hexByte b = [hexDigit (unat b div 16), hexDigit (unat b mod 16)]"

text \<open>\<^verbatim>\<open>buffer.toString("hex")\<close>: two lowercase digits for each byte.\<close>

definition toHex :: "8 word list \<Rightarrow> string" where
  "toHex bs = concat (map hexByte bs)"

definition isLowerHex :: "char \<Rightarrow> bool" where
  "isLowerHex c = (c \<in> set ''0123456789abcdef'')"

subsection \<open>String.prototype.startsWith and String.prototype.trim\<close>

definition startsWith :: "string \<Rightarrow> string \<Rightarrow> bool" where
  "startsWith s p = (take (length p) s = p)"

text \<open>
  The white space and line terminators of ECMAScript, each as the bytes of its UTF-8
  encoding: U+0009 to U+000D, U+0020, U+00A0, U+1680, U+2000 to U+200A, U+2028, U+2029,
  U+202F, U+205F, U+3000 and U+FEFF.
\<close>

definition whiteSpace :: "string list" where
  "whiteSpace =
    [[CHR 0x09], [CHR 0x0A], [CHR 0x0B], [CHR 0x0C], [CHR 0x0D], [CHR 0x20],
     [CHR 0xC2, CHR 0xA0],
     [CHR 0xE1, CHR 0x9A, CHR 0x80],
     [CHR 0xE2, CHR 0x80, CHR 0x80], [CHR 0xE2, CHR 0x80, CHR 0x81],
     [CHR 0xE2, CHR 0x80, CHR 0x82], [CHR 0xE2, CHR 0x80, CHR 0x83],
     [CHR 0xE2, CHR 0x80, CHR 0x84], [CHR 0xE2, CHR 0x80, CHR 0x85],
     [CHR 0xE2, CHR 0x80, CHR 0x86], [CHR 0xE2, CHR 0x80, CHR 0x87],
     [CHR 0xE2, CHR 0x80, CHR 0x88], [CHR 0xE2, CHR 0x80, CHR 0x89],
     [CHR 0xE2, CHR 0x80, CHR 0x8A],
     [CHR 0xE2, CHR 0x80, CHR 0xA8], [CHR 0xE2, CHR 0x80, CHR 0xA9],
     [CHR 0xE2, CHR 0x80, CHR 0xAF],
     [CHR 0xE2, CHR 0x81, CHR 0x9F],
     [CHR 0xE3, CHR 0x80, CHR 0x80],
     [CHR 0xEF, CHR 0xBB, CHR 0xBF]]"

text \<open>
  \<open>matchLen ws s\<close> is the length of the first sequence of \<open>ws\<close> that \<open>s\<close> begins
  with, and 0 when it begins with none.
\<close>

fun matchLen :: "string list \<Rightarrow> string \<Rightarrow> nat" where
  "matchLen [] s = 0"
| "matchLen (w # ws) s =
     (if w \<noteq> [] \<and> take (length w) s = w then length w else matchLen ws s)"

function stripStart :: "string list \<Rightarrow> string \<Rightarrow> string" where
  "stripStart ws s =
     (if matchLen ws s = 0 then s else stripStart ws (drop (matchLen ws s) s))"
  by pat_completeness auto
termination
proof (relation "measure (\<lambda>(ws, s). length s)")
  show "wf (measure (\<lambda>(ws :: string list, s :: string). length s))"
    by simp
next
  fix ws :: "string list" and s :: string
  assume pos: "matchLen ws s \<noteq> 0"
  have "matchLen ws [] = 0"
    by (induction ws) auto
  with pos have "s \<noteq> []"
    by auto
  with pos show "((ws, drop (matchLen ws s) s), (ws, s)) \<in> measure (\<lambda>(ws, s). length s)"
    by simp
qed

declare stripStart.simps [simp del]

definition trimStart :: "string \<Rightarrow> string" where
  "trimStart s = stripStart whiteSpace s"

definition trimEnd :: "string \<Rightarrow> string" where
  "trimEnd s = rev (stripStart (map rev whiteSpace) (rev s))"

definition trim :: "string \<Rightarrow> string" where
  "trim s = trimEnd (trimStart s)"

subsection \<open>URLSearchParams\<close>

text \<open>
  The application/x-www-form-urlencoded serializer of the URL standard, on the bytes of
  the UTF-8 encoding: a space becomes a plus sign, the letters, the digits and the four
  characters \<^verbatim>\<open>* - . _\<close> stay, and every other byte is a percent sign and two uppercase
  hexadecimal digits.
\<close>

definition urlSafe :: "char \<Rightarrow> bool" where
  "urlSafe c =
     (c \<in> set ''*-._0123456789ABCDEFGHIJKLMNOPQRSTUVWXYZabcdefghijklmnopqrstuvwxyz'')"

definition upperHexDigit :: "nat \<Rightarrow> char" where
  "upperHexDigit n = ''0123456789ABCDEF'' ! n"

definition urlencodeByte :: "char \<Rightarrow> string" where
  "urlencodeByte c =
     (if c = CHR 0x20 then ''+''
      else if urlSafe c then [c]
      else [CHR ''%'', upperHexDigit (of_char c div 16), upperHexDigit (of_char c mod 16)])"

definition urlencode :: "string \<Rightarrow> string" where
  "urlencode s = concat (map urlencodeByte s)"

text \<open>\<^verbatim>\<open>new URLSearchParams(record).toString()\<close> on the list of a record's entries.\<close>

fun URLSearchParams_toString :: "(string \<times> string) list \<Rightarrow> string" where
  "URLSearchParams_toString [] = []"
| "URLSearchParams_toString [(k, v)] = urlencode k @ ''='' @ urlencode v"
| "URLSearchParams_toString ((k, v) # kvs) =
     urlencode k @ ''='' @ urlencode v @ ''&'' @ URLSearchParams_toString kvs"

subsection \<open>JSON values\<close>

text \<open>
  What \<^verbatim>\<open>JSON.parse\<close> returns and \<^verbatim>\<open>JSON.stringify\<close> takes. The shell reads numbers
  only for their truth value and writes only the port, so a number is an integer here. An
  object is the list of its properties in the order of insertion, each name once.
\<close>

datatype json =
  JNull
| JBool bool
| JNum int
| JStr string
| JArr "json list"
| JObj "(string \<times> json) list"

text \<open>
  Reading a property: \<open>None\<close> is \<^verbatim>\<open>undefined\<close>. The shell reads the properties
  \<^verbatim>\<open>gateway\<close>, \<^verbatim>\<open>auth\<close> and \<^verbatim>\<open>token\<close>, which only an object can have.
\<close>

fun getProp :: "json \<Rightarrow> string \<Rightarrow> json option" where
  "getProp (JObj kvs) k = map_of kvs k"
| "getProp v k = None"

text \<open>The truth value of a JSON value in a condition.\<close>

fun truthy :: "json \<Rightarrow> bool" where
  "truthy JNull = False"
| "truthy (JBool b) = b"
| "truthy (JNum n) = (n \<noteq> 0)"
| "truthy (JStr s) = (s \<noteq> [])"
| "truthy (JArr xs) = True"
| "truthy (JObj kvs) = True"

text \<open>
  \<^verbatim>\<open>JSON.stringify(value, null, 2)\<close>. A string is quoted with the escapes of
  QuoteJSONString; an object or array that is not empty puts each member on a line of its
  own, indented two spaces deeper than the line that opens it.
\<close>

definition quoteChar :: "char \<Rightarrow> string" where
  "quoteChar c =
     (if c = CHR 0x22 then [CHR 0x5C, CHR 0x22]
      else if c = CHR 0x5C then [CHR 0x5C, CHR 0x5C]
      else if c = CHR 0x08 then [CHR 0x5C, CHR ''b'']
      else if c = CHR 0x09 then [CHR 0x5C, CHR ''t'']
      else if c = CHR 0x0A then [CHR 0x5C, CHR ''n'']
      else if c = CHR 0x0C then [CHR 0x5C, CHR ''f'']
      else if c = CHR 0x0D then [CHR 0x5C, CHR ''r'']
      else if (of_char c :: nat) < 32
        then [CHR 0x5C, CHR ''u'', CHR ''0'', CHR ''0'',
              hexDigit (of_char c div 16), hexDigit (of_char c mod 16)]
      else [c])"

definition quoteJSON :: "string \<Rightarrow> string" where
  "quoteJSON s = CHR 0x22 # concat (map quoteChar s) @ [CHR 0x22]"

fun joinWith :: "string \<Rightarrow> string list \<Rightarrow> string" where
  "joinWith sep [] = []"
| "joinWith sep [x] = x"
| "joinWith sep (x # xs) = x @ sep @ joinWith sep xs"

fun serialize :: "string \<Rightarrow> json \<Rightarrow> string"
  and serializeProps :: "string \<Rightarrow> (string \<times> json) list \<Rightarrow> string list"
  and serializeElems :: "string \<Rightarrow> json list \<Rightarrow> string list" where
  "serialize ind JNull = ''null''"
| "serialize ind (JBool b) = (if b then ''true'' else ''false'')"
| "serialize ind (JNum n) = showInt n"
| "serialize ind (JStr s) = quoteJSON s"
| "serialize ind (JArr xs) =
     (if xs = [] then ''[]''
      else ''['' @ [CHR 0x0A] @ ind @ ''  ''
           @ joinWith ('','' @ [CHR 0x0A] @ ind @ ''  '') (serializeElems (ind @ ''  '') xs)
           @ [CHR 0x0A] @ ind @ '']'')"
| "serialize ind (JObj kvs) =
     (if kvs = [] then ''{}''
      else ''{'' @ [CHR 0x0A] @ ind @ ''  ''
           @ joinWith ('','' @ [CHR 0x0A] @ ind @ ''  '') (serializeProps (ind @ ''  '') kvs)
           @ [CHR 0x0A] @ ind @ ''}'')"
| "serializeProps ind [] = []"
| "serializeProps ind ((k, v) # kvs) =
     (quoteJSON k @ '': '' @ serialize ind v) # serializeProps ind kvs"
| "serializeElems ind [] = []"
| "serializeElems ind (v # vs) = serialize ind v # serializeElems ind vs"

definition JSON_stringify :: "json \<Rightarrow> string" where
  "JSON_stringify v = serialize [] v"

subsection \<open>The platform and the state\<close>

text \<open>
  A module variable that holds an object, \<^verbatim>\<open>null\<close> or \<^verbatim>\<open>undefined\<close>. A window or a
  child process is named by its number, counted from 0 in the order of creation.
\<close>

datatype jsref = Undefined | Null | Obj nat

fun truthyRef :: "jsref \<Rightarrow> bool" where
  "truthyRef (Obj n) = True"
| "truthyRef r = False"

text \<open>
  What the shell reads from Electron and Node and never changes: paths, the environment,
  and the library functions whose results the shell only passes on. \<open>JSON_parse\<close> returns
  \<open>Inl\<close> of the rendered exception where \<^verbatim>\<open>JSON.parse\<close> throws. \<open>randomSource\<close> is the
  stream of bytes that \<^verbatim>\<open>crypto.randomBytes\<close> hands out.
\<close>

record platform =
  userData :: string
  isPackaged :: bool
  dirname :: string
  resourcesPath :: string
  execPath :: string
  processEnv :: "string \<rightharpoonup> string"
  processPlatform :: string
  path_join :: "string \<Rightarrow> string \<Rightarrow> string"
  JSON_parse :: "string \<Rightarrow> string + json"
  randomSource :: "nat \<Rightarrow> 8 word"

text \<open>One call of \<^verbatim>\<open>child_process.spawn\<close>.\<close>

record spawn_call =
  spawnCommand :: string
  spawnArgs :: "string list"
  spawnCwd :: string
  spawnEnv :: "string \<rightharpoonup> string"
  spawnStdio :: "string list"
  spawnShell :: bool

text \<open>
  The eight module variables of the source, then the outside world: the files and
  directories on disk, the lines of the log (level and message), how many random bytes were
  drawn, and the calls made so far to \<^verbatim>\<open>spawn\<close>, \<^verbatim>\<open>kill\<close>, \<^verbatim>\<open>setTimeout\<close> (the delay),
  \<^verbatim>\<open>loadURL\<close> (window and address), \<^verbatim>\<open>new BrowserWindow\<close> and \<^verbatim>\<open>app.quit\<close>.
\<close>

record state =
  mainWindow :: jsref
  gatewayProcess :: jsref
  gatewayToken :: string
  gatewayConfigPath :: string
  gatewayStateDir :: string
  gatewayPort :: nat
  controlUiUrl :: string
  uiRetries :: nat
  files :: "string \<rightharpoonup> string"
  dirs :: "string set"
  logLines :: "(string \<times> string) list"
  randomDrawn :: nat
  spawnCalls :: "spawn_call list"
  killCalls :: "nat list"
  setTimeoutCalls :: "nat list"
  loadURLCalls :: "(nat \<times> string) list"
  windowsCreated :: nat
  quitRequests :: nat

definition initialState :: "(string \<rightharpoonup> string) \<Rightarrow> state" where
  "initialState fs =
     \<lparr>mainWindow = Undefined, gatewayProcess = Undefined, gatewayToken = [],
      gatewayConfigPath = [], gatewayStateDir = [], gatewayPort = 18789,
      controlUiUrl = [], uiRetries = 0,
      files = fs, dirs = {}, logLines = [], randomDrawn = 0, spawnCalls = [],
      killCalls = [], setTimeoutCalls = [], loadURLCalls = [], windowsCreated = 0,
      quitRequests = 0\<rparr>"

subsection \<open>The functions of the source\<close>

text \<open>
  Each function of the source is a function on the state, in the order of its statements.
  The calls into the file system, the random source, the log and Electron are taken to
  succeed. The one exception that the source handles, the one thrown inside the
  \<^verbatim>\<open>try\<close> block of \<^verbatim>\<open>ensureGatewayConfig\<close>, is a value of the model, and the
  \<^verbatim>\<open>catch\<close> branch is the case that receives it.
\<close>

definition resolveRootDir :: "platform \<Rightarrow> string" where
  "resolveRootDir pf =
     (if \<not> isPackaged pf then path_join pf (dirname pf) ''../..'' else resourcesPath pf)"

text \<open>
  \<^verbatim>\<open>ensureLogStream\<close> makes the log directory and opens the log; \<^verbatim>\<open>log.write\<close> appends a
  line. The time stamp of a line is left out.
\<close>

definition ensureLogStream :: "platform \<Rightarrow> state \<Rightarrow> state" where
  "ensureLogStream pf s = s\<lparr>dirs := insert (userData pf) (dirs s)\<rparr>"

definition logWrite :: "string \<Rightarrow> string \<Rightarrow> state \<Rightarrow> state" where
  "logWrite level msg s = s\<lparr>logLines := logLines s @ [(level, msg)]\<rparr>"

definition randomBytes :: "platform \<Rightarrow> nat \<Rightarrow> state \<Rightarrow> 8 word list \<times> state" where
  "randomBytes pf n s =
     (map (randomSource pf) [randomDrawn s ..< randomDrawn s + n],
      s\<lparr>randomDrawn := randomDrawn s + n\<rparr>)"

definition generateToken :: "platform \<Rightarrow> state \<Rightarrow> string \<times> state" where
  "generateToken pf s = (case randomBytes pf 24 s of (buf, s') \<Rightarrow> (toHex buf, s'))"

definition buildMinimalGatewayConfig :: "state \<Rightarrow> string \<Rightarrow> json" where
  "buildMinimalGatewayConfig s token =
     JObj [(''gateway'', JObj
       [(''mode'', JStr ''local''),
        (''bind'', JStr ''loopback''),
        (''port'', JNum (int (gatewayPort s))),
        (''auth'', JObj [(''mode'', JStr ''token''), (''token'', JStr token)]),
        (''controlUi'', JObj [(''enabled'', JBool True), (''allowInsecureAuth'', JBool True)])])]"

text \<open>
  The conditional expression of \<^verbatim>\<open>ensureGatewayConfig\<close> that picks the token out of the
  parsed file: each step of the chain must be truthy, the token must be a string, and its
  trimmed form must not be empty; the value is the trimmed token, and the empty string
  otherwise.
\<close>

definition tokenOfParsed :: "json \<Rightarrow> string" where
  "tokenOfParsed parsed =
     (if \<not> truthy parsed then []
      else (case getProp parsed ''gateway'' of
        None \<Rightarrow> []
      | Some gateway \<Rightarrow>
          (if \<not> truthy gateway then []
           else (case getProp gateway ''auth'' of
             None \<Rightarrow> []
           | Some auth \<Rightarrow>
               (if \<not> truthy auth then []
                else (case getProp auth ''token'' of
                  Some (JStr token) \<Rightarrow> (if trim token \<noteq> [] then trim token else [])
                | _ \<Rightarrow> []))))))"

text \<open>
  The block of \<^verbatim>\<open>ensureGatewayConfig\<close> that reads the existing token: nothing when the
  file is absent; inside \<^verbatim>\<open>try\<close>, the file is read and parsed; the \<^verbatim>\<open>catch\<close> branch
  logs a warning and leaves the token empty.
\<close>

definition readExistingToken :: "platform \<Rightarrow> state \<Rightarrow> string \<times> state" where
  "readExistingToken pf s =
     (case files s (gatewayConfigPath s) of
        None \<Rightarrow> ([], s)
      | Some raw \<Rightarrow>
          (case JSON_parse pf raw of
             Inl err \<Rightarrow> ([], logWrite ''warn'' (''Failed to parse config, regenerating: '' @ err) s)
           | Inr parsed \<Rightarrow> (tokenOfParsed parsed, s)))"

definition ensureGatewayConfig :: "platform \<Rightarrow> state \<Rightarrow> state" where
  "ensureGatewayConfig pf s0 =
     (let s1 = s0\<lparr>gatewayStateDir := userData pf\<rparr>;
          s2 = s1\<lparr>gatewayConfigPath := path_join pf (gatewayStateDir s1) ''openclaw.json''\<rparr>;
          s3 = s2\<lparr>dirs := insert (gatewayStateDir s2) (dirs s2)\<rparr>;
          (existingToken, s4) = readExistingToken pf s3;
          (token, s5) = (if existingToken \<noteq> [] then (existingToken, s4) else generateToken pf s4);
          s6 = s5\<lparr>gatewayToken := token\<rparr>;
          nextConfig = buildMinimalGatewayConfig s6 (gatewayToken s6);
          s7 = s6\<lparr>files := (files s6)(gatewayConfigPath s6 \<mapsto> JSON_stringify nextConfig @ [CHR 0x0A])\<rparr>
      in logWrite ''info'' (''Wrote gateway config: '' @ gatewayConfigPath s7) s7)"

definition startGateway :: "platform \<Rightarrow> string \<Rightarrow> state \<Rightarrow> state" where
  "startGateway pf rootDir s0 =
     (if truthyRef (gatewayProcess s0) then s0
      else
        let entryPath = path_join pf rootDir ''openclaw.mjs'';
            s1 = logWrite ''info'' (''Starting gateway via Electron-as-Node: '' @ entryPath) s0;
            s2 = logWrite ''info'' (''Gateway config: '' @ gatewayConfigPath s1) s1;
            call = \<lparr>spawnCommand = execPath pf,
                    spawnArgs = [entryPath, ''gateway'', ''--allow-unconfigured'', ''--auth'', ''token'',
                                 ''--token'', gatewayToken s2, ''--port'', decimal (gatewayPort s2),
                                 ''--bind'', ''loopback''],
                    spawnCwd = rootDir,
                    spawnEnv = (processEnv pf)
                      (''ELECTRON_RUN_AS_NODE'' \<mapsto> ''1'',
                       ''OPENCLAW_NO_RESPAWN'' \<mapsto> ''1'',
                       ''OPENCLAW_SKIP_CHANNELS'' \<mapsto> ''1'',
                       ''OPENCLAW_SKIP_RUNTIME_GUARD'' \<mapsto> ''1'',
                       ''OPENCLAW_STATE_DIR'' \<mapsto> gatewayStateDir s2,
                       ''OPENCLAW_CONFIG_PATH'' \<mapsto> gatewayConfigPath s2,
                       ''OPENCLAW_GATEWAY_TOKEN'' \<mapsto> gatewayToken s2,
                       ''NODE_ENV'' \<mapsto> ''production''),
                    spawnStdio = [''ignore'', ''pipe'', ''pipe''],
                    spawnShell = False\<rparr>
        in s2\<lparr>gatewayProcess := Obj (length (spawnCalls s2)),
               spawnCalls := spawnCalls s2 @ [call]\<rparr>)"

text \<open>The four listeners that \<^verbatim>\<open>startGateway\<close> puts on the child process.\<close>

definition onGatewayStdout :: "string \<Rightarrow> state \<Rightarrow> state" where
  "onGatewayStdout data s = logWrite ''info'' (''gateway stdout: '' @ trim data) s"

definition onGatewayStderr :: "string \<Rightarrow> state \<Rightarrow> state" where
  "onGatewayStderr data s = logWrite ''error'' (''gateway stderr: '' @ trim data) s"

definition onGatewayExit :: "int option \<Rightarrow> string option \<Rightarrow> state \<Rightarrow> state" where
  "onGatewayExit code signal s0 =
     (let s1 = logWrite ''error''
                 (''gateway exited: code='' @ (case code of None \<Rightarrow> ''null'' | Some c \<Rightarrow> showInt c)
                  @ '' signal='' @ (case signal of None \<Rightarrow> ''null'' | Some sg \<Rightarrow> sg)) s0
      in s1\<lparr>gatewayProcess := Null\<rparr>)"

text \<open>
  The error object of the \<^verbatim>\<open>error\<close> event is given by its \<^verbatim>\<open>stack\<close>, when it has one,
  and by its rendering \<^verbatim>\<open>String(err)\<close>.
\<close>

definition onGatewayError :: "string option \<Rightarrow> string \<Rightarrow> state \<Rightarrow> state" where
  "onGatewayError stack rendered s0 =
     (let s1 = logWrite ''error''
                 (''gateway spawn error: ''
                  @ (case stack of
                       None \<Rightarrow> rendered
                     | Some st \<Rightarrow> if st \<noteq> [] then st else rendered)) s0
      in s1\<lparr>gatewayProcess := Null\<rparr>)"

definition buildControlUiUrl :: "state \<Rightarrow> string" where
  "buildControlUiUrl s =
     (let baseUrl = ''http://127.0.0.1:'' @ decimal (gatewayPort s) @ ''/'';
          params = [(''token'', gatewayToken s)]
      in baseUrl @ ''?'' @ URLSearchParams_toString params)"

definition loadURL :: "nat \<Rightarrow> string \<Rightarrow> state \<Rightarrow> state" where
  "loadURL w url s = s\<lparr>loadURLCalls := loadURLCalls s @ [(w, url)]\<rparr>"

text \<open>The \<^verbatim>\<open>did-fail-load\<close> listener and the callback of the timer it sets.\<close>

definition onDidFailLoad :: "int \<Rightarrow> string \<Rightarrow> string \<Rightarrow> state \<Rightarrow> state" where
  "onDidFailLoad errorCode errorDescription validatedURL s0 =
     (let s1 = logWrite ''error''
                 (''UI failed to load: '' @ showInt errorCode @ '' '' @ errorDescription
                  @ '' '' @ validatedURL) s0
      in if validatedURL \<noteq> [] \<and> startsWith validatedURL ''http://127.0.0.1''
            \<and> uiRetries s1 < 20
         then s1\<lparr>uiRetries := uiRetries s1 + 1, setTimeoutCalls := setTimeoutCalls s1 @ [500]\<rparr>
         else s1)"

definition onRetryTimer :: "state \<Rightarrow> state" where
  "onRetryTimer s =
     (case mainWindow s of Obj w \<Rightarrow> loadURL w (controlUiUrl s) s | _ \<Rightarrow> s)"

definition createWindow :: "platform \<Rightarrow> state \<Rightarrow> state" where
  "createWindow pf s0 =
     (let s1 = logWrite ''info'' ''TIXBOT starting...'' (ensureLogStream pf s0);
          w = windowsCreated s1;
          s2 = s1\<lparr>mainWindow := Obj w, windowsCreated := Suc w\<rparr>;
          rootDir = resolveRootDir pf;
          s3 = logWrite ''info'' (''Root dir: '' @ rootDir) s2;
          s4 = ensureGatewayConfig pf s3;
          s5 = startGateway pf rootDir s4;
          s6 = s5\<lparr>controlUiUrl := buildControlUiUrl s5\<rparr>;
          s7 = logWrite ''info'' (''Loading UI: '' @ controlUiUrl s6) s6
      in loadURL w (controlUiUrl s7) s7)"

text \<open>The listeners on the application and on the window.\<close>

definition onWindowClosed :: "state \<Rightarrow> state" where
  "onWindowClosed s = s\<lparr>mainWindow := Null\<rparr>"

definition onWindowAllClosed :: "platform \<Rightarrow> state \<Rightarrow> state" where
  "onWindowAllClosed pf s =
     (if processPlatform pf \<noteq> ''darwin'' then s\<lparr>quitRequests := Suc (quitRequests s)\<rparr> else s)"

definition onQuit :: "state \<Rightarrow> state" where
  "onQuit s =
     (case gatewayProcess s of Obj p \<Rightarrow> s\<lparr>killCalls := killCalls s @ [p]\<rparr> | _ \<Rightarrow> s)"

definition onActivate :: "platform \<Rightarrow> state \<Rightarrow> state" where
  "onActivate pf s = (if mainWindow s = Null then createWindow pf s else s)"

subsection \<open>The event loop\<close>

datatype event =
  AppReady
| WindowAllClosed
| AppQuit
| AppActivate
| WindowClosed
| DidFailLoad int string string
| RetryTimer
| GatewayStdout string
| GatewayStderr string
| GatewayExit "int option" "string option"
| GatewayError "string option" string

fun step :: "platform \<Rightarrow> state \<Rightarrow> event \<Rightarrow> state" where
  "step pf s AppReady = createWindow pf s"
| "step pf s WindowAllClosed = onWindowAllClosed pf s"
| "step pf s AppQuit = onQuit s"
| "step pf s AppActivate = onActivate pf s"
| "step pf s WindowClosed = onWindowClosed s"
| "step pf s (DidFailLoad code desc url) = onDidFailLoad code desc url s"
| "step pf s RetryTimer = onRetryTimer s"
| "step pf s (GatewayStdout d) = onGatewayStdout d s"
| "step pf s (GatewayStderr d) = onGatewayStderr d s"
| "step pf s (GatewayExit code signal) = onGatewayExit code signal s"
| "step pf s (GatewayError stack rendered) = onGatewayError stack rendered s"

definition run :: "platform \<Rightarrow> event list \<Rightarrow> state \<Rightarrow> state" where
  "run pf es s = foldl (step pf) s es"

text \<open>The two events whose listeners clear the process handle.\<close>

fun clearsHandle :: "event \<Rightarrow> bool" where
  "clearsHandle (GatewayExit code signal) = True"
| "clearsHandle (GatewayError stack rendered) = True"
| "clearsHandle e = False"

text \<open>A load failure whose address passes the test of the \<^verbatim>\<open>did-fail-load\<close> listener.\<close>

fun loopbackFailure :: "event \<Rightarrow> bool" where
  "loopbackFailure (DidFailLoad code desc url) = startsWith url ''http://127.0.0.1''"
| "loopbackFailure e = False"

subsection \<open>A sample installation\<close>

text \<open>
  A concrete platform for running the model. Its parser is a table: the texts listed, each
  with the value or the exception that \<^verbatim>\<open>JSON.parse\<close> gives for it.
\<close>

definition tableParse :: "(string \<times> (string + json)) list \<Rightarrow> string \<Rightarrow> string + json" where
  "tableParse tbl raw =
     (case map_of tbl raw of Some r \<Rightarrow> r | None \<Rightarrow> Inl ''SyntaxError: Unexpected end of JSON input'')"

definition storedText :: string where
  \<open>storedText = ''{"gateway":{"port":9999,"auth":{"token":"tok-123"}}}''\<close>

definition storedJson :: json where
  "storedJson =
     JObj [(''gateway'', JObj [(''port'', JNum 9999),
                               (''auth'', JObj [(''token'', JStr ''tok-123'')])])]"

definition paddedText :: string where
  \<open>paddedText = ''{"gateway":{"auth":{"token":" abc "}}}''\<close>

definition paddedJson :: json where
  "paddedJson = JObj [(''gateway'', JObj [(''auth'', JObj [(''token'', JStr '' abc '')])])]"

definition corruptText :: string where
  "corruptText = ''{not json''"

definition canonicalJson :: json where
  "canonicalJson = buildMinimalGatewayConfig (initialState Map.empty) ''tok-123''"

definition samplePlatform :: platform where
  "samplePlatform =
     \<lparr>userData = ''/home/user/.config/tixbot'',
      isPackaged = True,
      dirname = ''/opt/tixbot/resources/app/apps/windows'',
      resourcesPath = ''/opt/tixbot/resources'',
      execPath = ''/opt/tixbot/tixbot'',
      processEnv = [''PATH'' \<mapsto> ''/usr/bin''],
      processPlatform = ''linux'',
      path_join = (\<lambda>a b. a @ ''/'' @ b),
      JSON_parse = tableParse
        [(storedText, Inr storedJson),
         (paddedText, Inr paddedJson),
         (corruptText, Inl ''SyntaxError: Unexpected token n in JSON at position 1''),
         (JSON_stringify canonicalJson @ [CHR 0x0A], Inr canonicalJson)],
      randomSource = (\<lambda>n. of_nat (7 * n + 3))\<rparr>"

definition sampleDisk :: "string \<Rightarrow> string \<rightharpoonup> string" where
  "sampleDisk raw = [''/home/user/.config/tixbot/openclaw.json'' \<mapsto> raw]"

definition sampleRunning :: state where
  "sampleRunning = createWindow samplePlatform (initialState Map.empty)"

text \<open>
  The control UI of the sample installation refuses a connection. \<open>sampleReopened\<close> is
  the installation after one such failure, with the window then closed and opened again;
  \<open>sampleExhausted\<close> is the same after 20 such failures.
\<close>

definition sampleFailure :: event where
  "sampleFailure = DidFailLoad (- 102) ''ERR_CONNECTION_REFUSED'' (buildControlUiUrl sampleRunning)"

definition sampleReopened :: state where
  "sampleReopened =
     run samplePlatform [AppReady, sampleFailure, RetryTimer, WindowClosed, AppActivate]
       (initialState Map.empty)"

definition sampleExhausted :: state where
  "sampleExhausted =
     run samplePlatform (AppReady # replicate 20 sampleFailure @ [WindowClosed, AppActivate])
       (initialState Map.empty)"

section \<open>Properties\<close>

subsection \<open>Text\<close>

lemma decimal_18789: "decimal 18789 = ''18789''"
  by (simp add: decimal.simps digitChar_def)

lemma matchLen_take: "matchLen ws s = 0 \<Longrightarrow> matchLen ws (take n s) = 0"
proof (induction ws)
  case Nil
  then show ?case by simp
next
  case (Cons w ws)
  show ?case
  proof (cases "w \<noteq> [] \<and> take (length w) (take n s) = w")
    case True
    then have "length w \<le> n"
      by (metis length_take min.cobounded2 take_take order_trans)
    with True have "take (length w) s = w"
      by (simp add: min_def)
    with True Cons.prems show ?thesis by simp
  next
    case False
    with Cons show ?thesis by (auto split: if_splits)
  qed
qed

lemma stripStart_fixed: "matchLen ws (stripStart ws s) = 0"
  by (induction ws s rule: stripStart.induct) (simp add: stripStart.simps)

lemma stripStart_id: "matchLen ws s = 0 \<Longrightarrow> stripStart ws s = s"
  by (simp add: stripStart.simps)

lemma stripStart_drop: "\<exists>k. stripStart ws s = drop k s"
proof (induction ws s rule: stripStart.induct)
  case (1 ws s)
  show ?case
  proof (cases "matchLen ws s = 0")
    case True
    then have "stripStart ws s = drop 0 s" by (simp add: stripStart.simps)
    then show ?thesis by blast
  next
    case False
    with 1 obtain k where "stripStart ws (drop (matchLen ws s) s) = drop k (drop (matchLen ws s) s)"
      by blast
    with False have "stripStart ws s = drop (k + matchLen ws s) s"
      by (simp add: stripStart.simps[of ws s])
    then show ?thesis by blast
  qed
qed

lemma trim_idem: "trim (trim s) = trim s"
proof -
  define u where "u = stripStart whiteSpace s"
  define r where "r = stripStart (map rev whiteSpace) (rev u)"
  have ts: "trim s = rev r"
    by (simp add: trim_def trimEnd_def trimStart_def u_def r_def)
  obtain k where "r = drop k (rev u)"
    unfolding r_def using stripStart_drop by blast
  then have "rev r = take (length u - k) u"
    by (simp add: rev_drop)
  moreover have "matchLen whiteSpace u = 0"
    unfolding u_def by (rule stripStart_fixed)
  ultimately have "matchLen whiteSpace (rev r) = 0"
    by (simp add: matchLen_take)
  then have a: "stripStart whiteSpace (rev r) = rev r"
    by (rule stripStart_id)
  have "matchLen (map rev whiteSpace) r = 0"
    unfolding r_def by (rule stripStart_fixed)
  then have b: "stripStart (map rev whiteSpace) r = r"
    by (rule stripStart_id)
  show ?thesis
    unfolding ts by (simp add: trim_def trimEnd_def trimStart_def a b)
qed

lemma hexDigit_lower: "n < 16 \<Longrightarrow> isLowerHex (hexDigit n)"
  unfolding isLowerHex_def hexDigit_def by (rule nth_mem) simp

lemma hexByte_lower: "list_all isLowerHex (hexByte b)"
proof -
  have "unat b < 256" using unsigned_less [of b] by simp
  then have "unat b div 16 < 16" by simp
  then show ?thesis by (simp add: hexByte_def hexDigit_lower)
qed

lemma toHex_lower: "list_all isLowerHex (toHex bs)"
  by (induction bs) (simp_all add: toHex_def hexByte_lower)

lemma length_toHex: "length (toHex bs) = 2 * length bs"
  by (induction bs) (simp_all add: toHex_def hexByte_def)

lemma lowerHex_urlSafe: "isLowerHex c \<Longrightarrow> urlSafe c"
  by (auto simp add: isLowerHex_def urlSafe_def)

lemma urlencode_safe: "list_all urlSafe s \<Longrightarrow> urlencode s = s"
proof (induction s)
  case Nil
  then show ?case by (simp add: urlencode_def)
next
  case (Cons c s)
  then have "urlSafe c" by simp
  then have "urlencodeByte c = [c]"
    by (auto simp add: urlencodeByte_def urlSafe_def)
  with Cons show ?case by (simp add: urlencode_def)
qed

lemma upperHexDigit_not_amp: "n < 16 \<Longrightarrow> upperHexDigit n \<noteq> CHR ''&''"
proof -
  assume "n < 16"
  then have "upperHexDigit n \<in> set ''0123456789ABCDEF''"
    unfolding upperHexDigit_def by (intro nth_mem) simp
  then show ?thesis by auto
qed

lemma urlencodeByte_no_amp: "CHR ''&'' \<notin> set (urlencodeByte c)"
proof -
  have "(of_char c :: nat) div 16 < 16"
    by (simp add: div_less_iff_less_mult)
  then have d: "upperHexDigit (of_char c div 16) \<noteq> CHR ''&''"
    by (rule upperHexDigit_not_amp)
  have m: "upperHexDigit (of_char c mod 16) \<noteq> CHR ''&''"
    by (rule upperHexDigit_not_amp) simp
  show ?thesis
    using d m by (auto simp add: urlencodeByte_def urlSafe_def)
qed

lemma urlencode_no_amp: "CHR ''&'' \<notin> set (urlencode s)"
  by (induction s) (simp_all add: urlencode_def urlencodeByte_no_amp)

subsection \<open>The bootstrap\<close>

lemma getProp_Some_truthy: "getProp v k = Some x \<Longrightarrow> truthy v"
  by (cases v) simp_all

lemma tokenOfParsed_chain:
  assumes "getProp parsed ''gateway'' = Some gateway"
      and "getProp gateway ''auth'' = Some auth"
      and "getProp auth ''token'' = Some (JStr token)"
  shows "tokenOfParsed parsed = trim token"
  using assms getProp_Some_truthy [OF assms(1)] getProp_Some_truthy [OF assms(2)]
    getProp_Some_truthy [OF assms(3)]
  by (simp add: tokenOfParsed_def)

lemma ensure_reuse:
  assumes "files s (path_join pf (userData pf) ''openclaw.json'') = Some raw"
      and "JSON_parse pf raw = Inr parsed"
      and "tokenOfParsed parsed \<noteq> []"
  shows "ensureGatewayConfig pf s =
     s\<lparr>gatewayStateDir := userData pf,
       gatewayConfigPath := path_join pf (userData pf) ''openclaw.json'',
       dirs := insert (userData pf) (dirs s),
       gatewayToken := tokenOfParsed parsed,
       files := (files s)(path_join pf (userData pf) ''openclaw.json'' \<mapsto>
                  JSON_stringify (buildMinimalGatewayConfig s (tokenOfParsed parsed)) @ [CHR 0x0A]),
       logLines := logLines s @ [(''info'', ''Wrote gateway config: '' @ path_join pf (userData pf) ''openclaw.json'')]\<rparr>"
  using assms
  by (simp add: ensureGatewayConfig_def readExistingToken_def logWrite_def
      buildMinimalGatewayConfig_def Let_def)

lemma ensure_generate:
  assumes "case files s (path_join pf (userData pf) ''openclaw.json'') of
             None \<Rightarrow> True
           | Some raw \<Rightarrow> (case JSON_parse pf raw of
                           Inl err \<Rightarrow> True
                         | Inr parsed \<Rightarrow> tokenOfParsed parsed = [])"
  shows "gatewayToken (ensureGatewayConfig pf s) =
           toHex (map (randomSource pf) [randomDrawn s ..< randomDrawn s + 24])"
    and "randomDrawn (ensureGatewayConfig pf s) = randomDrawn s + 24"
    and "files (ensureGatewayConfig pf s) (path_join pf (userData pf) ''openclaw.json'') =
           Some (JSON_stringify (buildMinimalGatewayConfig s
                   (toHex (map (randomSource pf) [randomDrawn s ..< randomDrawn s + 24]))) @ [CHR 0x0A])"
  using assms
  by (auto simp add: ensureGatewayConfig_def readExistingToken_def logWrite_def generateToken_def
      randomBytes_def buildMinimalGatewayConfig_def Let_def split: option.splits sum.splits)

lemma ensure_frame:
  "gatewayPort (ensureGatewayConfig pf s) = gatewayPort s"
  "gatewayProcess (ensureGatewayConfig pf s) = gatewayProcess s"
  "spawnCalls (ensureGatewayConfig pf s) = spawnCalls s"
  "mainWindow (ensureGatewayConfig pf s) = mainWindow s"
  "uiRetries (ensureGatewayConfig pf s) = uiRetries s"
  "setTimeoutCalls (ensureGatewayConfig pf s) = setTimeoutCalls s"
  "killCalls (ensureGatewayConfig pf s) = killCalls s"
  "gatewayConfigPath (ensureGatewayConfig pf s) = path_join pf (userData pf) ''openclaw.json''"
  "gatewayStateDir (ensureGatewayConfig pf s) = userData pf"
  by (simp_all add: ensureGatewayConfig_def readExistingToken_def logWrite_def generateToken_def
      randomBytes_def Let_def split: option.splits sum.splits prod.splits)

lemma ensure_file:
  "files (ensureGatewayConfig pf s) (path_join pf (userData pf) ''openclaw.json'') =
     Some (JSON_stringify (buildMinimalGatewayConfig s (gatewayToken (ensureGatewayConfig pf s)))
           @ [CHR 0x0A])"
  by (simp add: ensureGatewayConfig_def readExistingToken_def logWrite_def generateToken_def
      randomBytes_def buildMinimalGatewayConfig_def Let_def split: option.splits sum.splits prod.splits)

lemma ensure_corrupt_log:
  assumes "files s (path_join pf (userData pf) ''openclaw.json'') = Some raw"
      and "JSON_parse pf raw = Inl err"
  shows "logLines (ensureGatewayConfig pf s) =
           logLines s @ [(''warn'', ''Failed to parse config, regenerating: '' @ err),
                         (''info'', ''Wrote gateway config: '' @ path_join pf (userData pf) ''openclaw.json'')]"
  using assms
  by (simp add: ensureGatewayConfig_def readExistingToken_def logWrite_def generateToken_def
      randomBytes_def Let_def)

subsection \<open>Starting the gateway, and the event loop\<close>

lemma startGateway_frame:
  "uiRetries (startGateway pf r s) = uiRetries s"
  "setTimeoutCalls (startGateway pf r s) = setTimeoutCalls s"
  "gatewayPort (startGateway pf r s) = gatewayPort s"
  "gatewayToken (startGateway pf r s) = gatewayToken s"
  "files (startGateway pf r s) = files s"
  "killCalls (startGateway pf r s) = killCalls s"
  "gatewayConfigPath (startGateway pf r s) = gatewayConfigPath s"
  by (simp_all add: startGateway_def logWrite_def Let_def)

lemma startGateway_live: "truthyRef (gatewayProcess s) \<Longrightarrow> startGateway pf r s = s"
  by (simp add: startGateway_def)

lemma startGateway_idle:
  "\<not> truthyRef (gatewayProcess s) \<Longrightarrow>
     gatewayProcess (startGateway pf r s) = Obj (length (spawnCalls s))
     \<and> length (spawnCalls (startGateway pf r s)) = Suc (length (spawnCalls s))"
  by (simp add: startGateway_def logWrite_def Let_def)

lemma createWindow_frame:
  "uiRetries (createWindow pf s) = uiRetries s"
  "setTimeoutCalls (createWindow pf s) = setTimeoutCalls s"
  "gatewayPort (createWindow pf s) = gatewayPort s"
  "killCalls (createWindow pf s) = killCalls s"
  by (simp_all add: createWindow_def logWrite_def loadURL_def ensureLogStream_def Let_def
      startGateway_frame ensure_frame)

lemma createWindow_process:
  "gatewayProcess (createWindow pf s) =
     (if truthyRef (gatewayProcess s) then gatewayProcess s else Obj (length (spawnCalls s)))"
  "length (spawnCalls (createWindow pf s)) =
     (if truthyRef (gatewayProcess s) then length (spawnCalls s) else Suc (length (spawnCalls s)))"
  by (simp_all add: createWindow_def logWrite_def loadURL_def ensureLogStream_def Let_def
      startGateway_live startGateway_idle ensure_frame)

lemma step_budget:
  "length (spawnCalls (step pf s e)) + (if truthyRef (gatewayProcess (step pf s e)) then 0 else 1)
     \<le> length (spawnCalls s) + (if truthyRef (gatewayProcess s) then 0 else 1)
        + (if clearsHandle e then 1 else 0)"
  by (cases e)
     (simp_all add: createWindow_process onWindowAllClosed_def onQuit_def onActivate_def
        onWindowClosed_def onDidFailLoad_def onRetryTimer_def onGatewayStdout_def
        onGatewayStderr_def onGatewayExit_def onGatewayError_def logWrite_def loadURL_def
        Let_def split: jsref.splits)

lemma run_budget:
  "length (spawnCalls (run pf es s)) + (if truthyRef (gatewayProcess (run pf es s)) then 0 else 1)
     \<le> length (spawnCalls s) + (if truthyRef (gatewayProcess s) then 0 else 1)
        + length (filter clearsHandle es)"
proof (induction es arbitrary: s)
  case Nil
  then show ?case by (simp add: run_def)
next
  case (Cons e es)
  have "run pf (e # es) s = run pf es (step pf s e)"
    by (simp add: run_def)
  with Cons [of "step pf s e"] step_budget [of pf s e] show ?case
    by (simp split: if_splits)
qed


subsection \<open>Load failures\<close>

lemma startsWith_nonempty: "startsWith url ''http://127.0.0.1'' \<Longrightarrow> url \<noteq> []"
  by (auto simp add: startsWith_def)

lemma fail_loopback:
  assumes "startsWith url ''http://127.0.0.1''"
  shows "uiRetries (onDidFailLoad code desc url s) = (if uiRetries s < 20 then Suc (uiRetries s) else uiRetries s)"
    and "setTimeoutCalls (onDidFailLoad code desc url s) =
           (if uiRetries s < 20 then setTimeoutCalls s @ [500] else setTimeoutCalls s)"
  using assms startsWith_nonempty [OF assms]
  by (simp_all add: onDidFailLoad_def logWrite_def Let_def)

lemma run_Cons: "run pf (e # es) s = run pf es (step pf s e)"
  by (simp add: run_def)

lemma run_loopback:
  "list_all loopbackFailure es \<Longrightarrow>
     uiRetries (run pf es s) = uiRetries s + min (length es) (20 - uiRetries s)
     \<and> setTimeoutCalls (run pf es s) =
         setTimeoutCalls s @ replicate (min (length es) (20 - uiRetries s)) 500"
proof (induction es arbitrary: s)
  case Nil
  then show ?case by (simp add: run_def)
next
  case (Cons e es)
  from Cons.prems obtain code desc url
    where e: "e = DidFailLoad code desc url" and lb: "startsWith url ''http://127.0.0.1''"
    by (cases e) simp_all
  from Cons.prems have rest: "list_all loopbackFailure es" by simp
  note ih = Cons.IH [OF rest, of "step pf s e"]
  show ?case
  proof (cases "uiRetries s < 20")
    case True
    then have m: "min (Suc (length es)) (20 - uiRetries s)
                 = Suc (min (length es) (20 - Suc (uiRetries s)))"
      by arith
    from True ih show ?thesis
      unfolding run_Cons by (simp add: e fail_loopback [OF lb] m)
  next
    case False
    with ih show ?thesis
      unfolding run_Cons by (simp add: e fail_loopback [OF lb])
  qed
qed

lemma step_retry_inv:
  assumes "uiRetries s \<le> 20" and "setTimeoutCalls s = replicate (uiRetries s) 500"
  shows "uiRetries (step pf s e) \<le> 20
         \<and> setTimeoutCalls (step pf s e) = replicate (uiRetries (step pf s e)) 500"
  using assms
  by (cases e)
     (auto simp add: createWindow_frame onWindowAllClosed_def onQuit_def onActivate_def
        onWindowClosed_def onDidFailLoad_def onRetryTimer_def onGatewayStdout_def
        onGatewayStderr_def onGatewayExit_def onGatewayError_def logWrite_def loadURL_def
        Let_def replicate_append_same split: jsref.splits)

lemma run_retry_inv:
  assumes "uiRetries s \<le> 20" and "setTimeoutCalls s = replicate (uiRetries s) 500"
  shows "uiRetries (run pf es s) \<le> 20
         \<and> setTimeoutCalls (run pf es s) = replicate (uiRetries (run pf es s)) 500"
  using assms
proof (induction es arbitrary: s)
  case Nil
  then show ?case by (simp add: run_def)
next
  case (Cons e es)
  from step_retry_inv [OF Cons.prems, of pf e] Cons.IH [of "step pf s e"]
  show ?case unfolding run_Cons by blast
qed

lemma url_prefix: "startsWith (buildControlUiUrl s) ''http://127.0.0.1''"
  by (simp add: buildControlUiUrl_def startsWith_def Let_def)

subsection \<open>The token, the address and the port\<close>

lemma tokenOfParsed_config: "tokenOfParsed (buildMinimalGatewayConfig s t) = trim t"
  by (simp add: tokenOfParsed_def buildMinimalGatewayConfig_def)

lemma matchLen_no_head:
  "(\<And>w. w \<in> set ws \<Longrightarrow> w \<noteq> [] \<Longrightarrow> hd w \<noteq> c) \<Longrightarrow> matchLen ws (c # cs) = 0"
proof (induction ws)
  case Nil
  then show ?case by simp
next
  case (Cons w ws)
  have "\<not> (w \<noteq> [] \<and> take (length w) (c # cs) = w)"
  proof
    assume m: "w \<noteq> [] \<and> take (length w) (c # cs) = w"
    then obtain x xs where w: "w = x # xs" by (cases w) auto
    with m have "x = c" by simp
    with w Cons.prems [of w] show False by simp
  qed
  with Cons show ?case by simp
qed

lemma whiteSpace_heads:
  "w \<in> set whiteSpace \<Longrightarrow>
     hd w \<in> {CHR 0x09, CHR 0x0A, CHR 0x0B, CHR 0x0C, CHR 0x0D, CHR 0x20,
              CHR 0xC2, CHR 0xE1, CHR 0xE2, CHR 0xE3, CHR 0xEF}"
  by (auto simp add: whiteSpace_def)

lemma whiteSpace_lasts:
  "w \<in> set (map rev whiteSpace) \<Longrightarrow>
     hd w \<in> {CHR 0x09, CHR 0x0A, CHR 0x0B, CHR 0x0C, CHR 0x0D, CHR 0x20,
              CHR 0xA0, CHR 0x80, CHR 0x81, CHR 0x82, CHR 0x83, CHR 0x84, CHR 0x85,
              CHR 0x86, CHR 0x87, CHR 0x88, CHR 0x89, CHR 0x8A, CHR 0xA8, CHR 0xA9,
              CHR 0xAF, CHR 0x9F, CHR 0xBF}"
  by (auto simp add: whiteSpace_def)

lemma hex_not_space:
  "isLowerHex c \<Longrightarrow>
     c \<notin> {CHR 0x09, CHR 0x0A, CHR 0x0B, CHR 0x0C, CHR 0x0D, CHR 0x20,
           CHR 0xC2, CHR 0xE1, CHR 0xE2, CHR 0xE3, CHR 0xEF}
     \<and> c \<notin> {CHR 0x09, CHR 0x0A, CHR 0x0B, CHR 0x0C, CHR 0x0D, CHR 0x20,
              CHR 0xA0, CHR 0x80, CHR 0x81, CHR 0x82, CHR 0x83, CHR 0x84, CHR 0x85,
              CHR 0x86, CHR 0x87, CHR 0x88, CHR 0x89, CHR 0x8A, CHR 0xA8, CHR 0xA9,
              CHR 0xAF, CHR 0x9F, CHR 0xBF}"
  by (auto simp add: isLowerHex_def)

lemma matchLen_hex: "isLowerHex c \<Longrightarrow> matchLen whiteSpace (c # cs) = 0"
  using hex_not_space [of c] whiteSpace_heads by (intro matchLen_no_head) blast

lemma matchLen_rev_hex: "isLowerHex c \<Longrightarrow> matchLen (map rev whiteSpace) (c # cs) = 0"
  using hex_not_space [of c] whiteSpace_lasts by (intro matchLen_no_head) blast

lemma trim_hex: "list_all isLowerHex t \<Longrightarrow> trim t = t"
proof (cases t)
  case Nil
  then show ?thesis
    by (simp add: trim_def trimEnd_def trimStart_def stripStart.simps whiteSpace_def)
next
  case (Cons c cs)
  assume hex: "list_all isLowerHex t"
  with Cons have "isLowerHex c" by simp
  then have a: "stripStart whiteSpace t = t"
    unfolding Cons by (intro stripStart_id matchLen_hex)
  from Cons obtain d ds where r: "rev t = d # ds"
    by (cases "rev t") simp_all
  then have "d \<in> set t"
    by (metis list.set_intros(1) set_rev)
  with hex have "isLowerHex d"
    by (simp add: list_all_iff)
  then have b: "stripStart (map rev whiteSpace) (rev t) = rev t"
    unfolding r by (intro stripStart_id matchLen_rev_hex)
  show ?thesis
    by (simp add: trim_def trimEnd_def trimStart_def a b)
qed

lemma buildControlUiUrl_eq:
  "buildControlUiUrl s =
     ''http://127.0.0.1:'' @ decimal (gatewayPort s) @ ''/?token='' @ urlencode (gatewayToken s)"
proof -
  have "urlencode ''token'' = ''token''"
    by (simp add: urlencode_def urlencodeByte_def urlSafe_def)
  then show ?thesis
    by (simp add: buildControlUiUrl_def Let_def)
qed

lemma startGateway_idle_call:
  assumes "\<not> truthyRef (gatewayProcess s)"
  shows "spawnArgs (last (spawnCalls (startGateway pf r s))) =
           [path_join pf r ''openclaw.mjs'', ''gateway'', ''--allow-unconfigured'', ''--auth'',
            ''token'', ''--token'', gatewayToken s, ''--port'', decimal (gatewayPort s),
            ''--bind'', ''loopback'']"
    and "spawnEnv (last (spawnCalls (startGateway pf r s))) ''OPENCLAW_GATEWAY_TOKEN''
           = Some (gatewayToken s)"
    and "spawnEnv (last (spawnCalls (startGateway pf r s))) ''OPENCLAW_CONFIG_PATH''
           = Some (gatewayConfigPath s)"
  using assms by (simp_all add: startGateway_def logWrite_def Let_def)

lemma ensure_token_cong:
  "files s = files s' \<Longrightarrow> randomDrawn s = randomDrawn s' \<Longrightarrow>
     gatewayToken (ensureGatewayConfig pf s) = gatewayToken (ensureGatewayConfig pf s')"
  by (simp add: ensureGatewayConfig_def readExistingToken_def logWrite_def generateToken_def
      randomBytes_def Let_def split: option.splits sum.splits prod.splits)

lemma createWindow_token:
  "gatewayToken (createWindow pf s) = gatewayToken (ensureGatewayConfig pf s)"
proof -
  have "gatewayToken (ensureGatewayConfig pf
          (s\<lparr>dirs := insert (userData pf) (dirs s),
             mainWindow := Obj (windowsCreated s),
             windowsCreated := Suc (windowsCreated s),
             logLines := logLines s @ [(''info'', ''TIXBOT starting...''),
                                       (''info'', ''Root dir: '' @ resolveRootDir pf)]\<rparr>))
        = gatewayToken (ensureGatewayConfig pf s)"
    by (rule ensure_token_cong) simp_all
  then show ?thesis
    by (simp add: createWindow_def Let_def loadURL_def logWrite_def ensureLogStream_def
        startGateway_frame)
qed

lemma createWindow_url:
  "controlUiUrl (createWindow pf s) = buildControlUiUrl (createWindow pf s)"
  "snd (last (loadURLCalls (createWindow pf s))) = buildControlUiUrl (createWindow pf s)"
  by (simp_all add: createWindow_def Let_def loadURL_def logWrite_def buildControlUiUrl_def)

lemma createWindow_file:
  "gatewayConfigPath (createWindow pf s) = path_join pf (userData pf) ''openclaw.json''"
  "files (createWindow pf s) (path_join pf (userData pf) ''openclaw.json'') =
     Some (JSON_stringify (buildMinimalGatewayConfig (createWindow pf s)
             (gatewayToken (createWindow pf s))) @ [CHR 0x0A])"
  by (simp_all add: createWindow_def Let_def loadURL_def logWrite_def startGateway_frame
      ensure_frame ensure_file buildMinimalGatewayConfig_def ensureLogStream_def)

lemma createWindow_call:
  assumes "\<not> truthyRef (gatewayProcess s)"
  shows "spawnArgs (last (spawnCalls (createWindow pf s))) =
           [path_join pf (resolveRootDir pf) ''openclaw.mjs'', ''gateway'', ''--allow-unconfigured'',
            ''--auth'', ''token'', ''--token'', gatewayToken (createWindow pf s), ''--port'',
            decimal (gatewayPort (createWindow pf s)), ''--bind'', ''loopback'']"
    and "spawnEnv (last (spawnCalls (createWindow pf s))) ''OPENCLAW_GATEWAY_TOKEN''
           = Some (gatewayToken (createWindow pf s))"
  using assms
  by (simp_all add: createWindow_def Let_def loadURL_def logWrite_def startGateway_frame
      ensure_frame startGateway_idle_call ensureLogStream_def)

lemma toHex_urlSafe: "list_all urlSafe (toHex bs)"
  using toHex_lower [of bs] by (simp add: list_all_iff lowerHex_urlSafe)

lemma step_port: "gatewayPort (step pf s e) = gatewayPort s"
  by (cases e)
     (simp_all add: createWindow_frame onWindowAllClosed_def onQuit_def onActivate_def
        onWindowClosed_def onDidFailLoad_def onRetryTimer_def onGatewayStdout_def
        onGatewayStderr_def onGatewayExit_def onGatewayError_def logWrite_def loadURL_def
        Let_def split: jsref.splits)

lemma run_port: "gatewayPort (run pf es s) = gatewayPort s"
  by (induction es arbitrary: s) (simp_all add: run_def step_port)

subsection \<open>The sample installation\<close>

lemma sampleRunning_process: "gatewayProcess sampleRunning = Obj 0"
  by (simp add: sampleRunning_def createWindow_process initialState_def)

lemma sample_path:
  "path_join samplePlatform (userData samplePlatform) ''openclaw.json''
     = ''/home/user/.config/tixbot/openclaw.json''"
  by (simp add: samplePlatform_def)

lemma sample_parse:
  "JSON_parse samplePlatform storedText = Inr storedJson"
  "JSON_parse samplePlatform paddedText = Inr paddedJson"
  "JSON_parse samplePlatform corruptText
     = Inl ''SyntaxError: Unexpected token n in JSON at position 1''"
  by (simp_all add: samplePlatform_def tableParse_def storedText_def paddedText_def
      corruptText_def)

lemma sample_parse_canonical:
  "JSON_parse samplePlatform (JSON_stringify canonicalJson @ [CHR 0x0A]) = Inr canonicalJson"
  by (simp add: samplePlatform_def tableParse_def storedText_def paddedText_def corruptText_def
      canonicalJson_def JSON_stringify_def buildMinimalGatewayConfig_def quoteJSON_def)

lemma trim_samples:
  "trim ''tok-123'' = ''tok-123''"
  "trim '' abc '' = ''abc''"
  by (simp_all add: trim_def trimEnd_def trimStart_def stripStart.simps whiteSpace_def)

lemma sample_random:
  "toHex (map (randomSource samplePlatform) [0..<24])
     = ''030a11181f262d343b424950575e656c737a81888f969da4''"
  by (simp add: samplePlatform_def toHex_def hexByte_def hexDigit_def upt_rec unat_of_nat)

lemma sampleRunning_token:
  "gatewayToken sampleRunning = ''030a11181f262d343b424950575e656c737a81888f969da4''"
proof -
  have n: "case files (initialState Map.empty)
                  (path_join samplePlatform (userData samplePlatform) ''openclaw.json'') of
             None \<Rightarrow> True
           | Some raw \<Rightarrow> (case JSON_parse samplePlatform raw of
                           Inl err \<Rightarrow> True
                         | Inr parsed \<Rightarrow> tokenOfParsed parsed = [])"
    by (simp add: initialState_def)
  have d: "randomDrawn (initialState Map.empty) = 0"
    by (simp add: initialState_def)
  show ?thesis
    by (simp add: sampleRunning_def createWindow_token ensure_generate(1) [OF n] d sample_random)
qed

lemma sampleRunning_port: "gatewayPort sampleRunning = 18789"
  by (simp add: sampleRunning_def createWindow_frame initialState_def)

lemma run_append: "run pf (xs @ ys) s = run pf ys (run pf xs s)"
  by (simp add: run_def)

lemma sampleFailure_loopback: "loopbackFailure sampleFailure"
  by (simp add: sampleFailure_def url_prefix)

lemma sampleReopened_counter:
  "uiRetries sampleReopened = 1" "setTimeoutCalls sampleReopened = [500]"
  by (simp_all add: sampleReopened_def run_def sampleFailure_def fail_loopback [OF url_prefix]
      createWindow_frame onRetryTimer_def onWindowClosed_def onActivate_def loadURL_def
      initialState_def split: jsref.splits)

lemma sampleExhausted_counter:
  "uiRetries sampleExhausted = 20" "setTimeoutCalls sampleExhausted = replicate 20 500"
proof -
  have a: "list_all loopbackFailure (replicate 20 sampleFailure)"
    by (simp add: list_all_iff sampleFailure_loopback)
  have u: "uiRetries (initialState Map.empty) = 0"
    and t: "setTimeoutCalls (initialState Map.empty) = []"
    by (simp_all add: initialState_def)
  note r = run_loopback [OF a, of samplePlatform "createWindow samplePlatform (initialState Map.empty)"]
  have e: "sampleExhausted =
             run samplePlatform [WindowClosed, AppActivate]
               (run samplePlatform (replicate 20 sampleFailure)
                  (createWindow samplePlatform (initialState Map.empty)))"
    by (simp add: sampleExhausted_def run_Cons run_append)
  show "uiRetries sampleExhausted = 20"
    using r by (simp add: e run_def onWindowClosed_def onActivate_def createWindow_frame u)
  show "setTimeoutCalls sampleExhausted = replicate 20 500"
    using r by (simp add: e run_def onWindowClosed_def onActivate_def createWindow_frame u t)
qed

section \<open>The claims\<close>

subsection \<open>C1: an existing token is kept\<close>

text \<open>
  Claim C1, as amended. When the configuration file exists, parses, and holds at
  \<^verbatim>\<open>gateway.auth.token\<close> a string whose trimmed form is not empty, the bootstrap takes
  the trimmed form of that string as the token, which is the string itself when it has no
  white space at either end. It draws no random bytes and leaves the port as it was, and
  its result does not depend on the random source. When the parser reads back what
  \<^verbatim>\<open>JSON.stringify\<close> wrote, a second bootstrap on the state the first one left gives the
  same token and port, again without drawing random bytes.
\<close>

theorem bootstrap_reuses_trimmed_token:
  assumes stored: "files s (path_join pf (userData pf) ''openclaw.json'') = Some raw"
      and parse: "JSON_parse pf raw = Inr parsed"
      and gw: "getProp parsed ''gateway'' = Some gateway"
      and au: "getProp gateway ''auth'' = Some auth"
      and tk: "getProp auth ''token'' = Some (JStr token)"
      and ne: "trim token \<noteq> []"
  shows "gatewayToken (ensureGatewayConfig pf s) = trim token
       \<and> (trim token = token \<longrightarrow> gatewayToken (ensureGatewayConfig pf s) = token)
       \<and> randomDrawn (ensureGatewayConfig pf s) = randomDrawn s
       \<and> gatewayPort (ensureGatewayConfig pf s) = gatewayPort s
       \<and> ensureGatewayConfig (pf\<lparr>randomSource := r\<rparr>) s = ensureGatewayConfig pf s
       \<and> (JSON_parse pf (JSON_stringify (buildMinimalGatewayConfig s (trim token)) @ [CHR 0x0A])
            = Inr (buildMinimalGatewayConfig s (trim token))
          \<longrightarrow> gatewayToken (ensureGatewayConfig pf (ensureGatewayConfig pf s)) = trim token
              \<and> gatewayPort (ensureGatewayConfig pf (ensureGatewayConfig pf s)) = gatewayPort s
              \<and> randomDrawn (ensureGatewayConfig pf (ensureGatewayConfig pf s)) = randomDrawn s)"
proof -
  have tp: "tokenOfParsed parsed = trim token"
    using gw au tk by (rule tokenOfParsed_chain)
  with ne have tn: "tokenOfParsed parsed \<noteq> []" by simp
  note first = ensure_reuse [OF stored parse tn]
  have a: "gatewayToken (ensureGatewayConfig pf s) = trim token"
    and b: "randomDrawn (ensureGatewayConfig pf s) = randomDrawn s"
    and c: "gatewayPort (ensureGatewayConfig pf s) = gatewayPort s"
    by (simp_all add: first tp)
  have file': "files s (path_join (pf\<lparr>randomSource := r\<rparr>) (userData (pf\<lparr>randomSource := r\<rparr>))
                 ''openclaw.json'') = Some raw"
    using stored by simp
  have parse': "JSON_parse (pf\<lparr>randomSource := r\<rparr>) raw = Inr parsed"
    using parse by simp
  have d: "ensureGatewayConfig (pf\<lparr>randomSource := r\<rparr>) s = ensureGatewayConfig pf s"
    by (simp add: first ensure_reuse [OF file' parse' tn])
  have e: "gatewayToken (ensureGatewayConfig pf (ensureGatewayConfig pf s)) = trim token
           \<and> gatewayPort (ensureGatewayConfig pf (ensureGatewayConfig pf s)) = gatewayPort s
           \<and> randomDrawn (ensureGatewayConfig pf (ensureGatewayConfig pf s)) = randomDrawn s"
    if rt: "JSON_parse pf (JSON_stringify (buildMinimalGatewayConfig s (trim token)) @ [CHR 0x0A])
            = Inr (buildMinimalGatewayConfig s (trim token))"
  proof -
    have f2: "files (ensureGatewayConfig pf s) (path_join pf (userData pf) ''openclaw.json'')
              = Some (JSON_stringify (buildMinimalGatewayConfig s (trim token)) @ [CHR 0x0A])"
      by (simp add: ensure_file a)
    have t2: "tokenOfParsed (buildMinimalGatewayConfig s (trim token)) \<noteq> []"
      using ne by (simp add: tokenOfParsed_config trim_idem)
    note second = ensure_reuse [OF f2 rt t2]
    show ?thesis
      by (simp add: second tokenOfParsed_config trim_idem b c)
  qed
  from a b c d e show ?thesis by simp
qed

text \<open>On the sample installation, whose file holds the token \<^verbatim>\<open>tok-123\<close>.\<close>

theorem bootstrap_reuses_trimmed_token_witness:
  "gatewayToken (ensureGatewayConfig samplePlatform (initialState (sampleDisk storedText))) = ''tok-123''
   \<and> randomDrawn (ensureGatewayConfig samplePlatform (initialState (sampleDisk storedText))) = 0
   \<and> gatewayPort (ensureGatewayConfig samplePlatform (initialState (sampleDisk storedText))) = 18789
   \<and> gatewayToken (ensureGatewayConfig samplePlatform
        (ensureGatewayConfig samplePlatform (initialState (sampleDisk storedText)))) = ''tok-123''
   \<and> gatewayPort (ensureGatewayConfig samplePlatform
        (ensureGatewayConfig samplePlatform (initialState (sampleDisk storedText)))) = 18789"
proof -
  have f: "files (initialState (sampleDisk storedText))
             (path_join samplePlatform (userData samplePlatform) ''openclaw.json'') = Some storedText"
    by (simp add: sample_path initialState_def sampleDisk_def)
  have g: "getProp storedJson ''gateway''
             = Some (JObj [(''port'', JNum 9999), (''auth'', JObj [(''token'', JStr ''tok-123'')])])"
    and a: "getProp (JObj [(''port'', JNum 9999), (''auth'', JObj [(''token'', JStr ''tok-123'')])]) ''auth''
             = Some (JObj [(''token'', JStr ''tok-123'')])"
    and t: "getProp (JObj [(''token'', JStr ''tok-123'')]) ''token'' = Some (JStr ''tok-123'')"
    and n: "trim ''tok-123'' \<noteq> []"
    by (simp_all add: storedJson_def trim_samples)
  have c: "buildMinimalGatewayConfig (initialState (sampleDisk storedText)) ''tok-123'' = canonicalJson"
    by (simp add: canonicalJson_def buildMinimalGatewayConfig_def initialState_def)
  have p: "gatewayPort (initialState (sampleDisk storedText)) = 18789"
    and d: "randomDrawn (initialState (sampleDisk storedText)) = 0"
    by (simp_all add: initialState_def)
  from bootstrap_reuses_trimmed_token [OF f sample_parse(1) g a t n]
  show ?thesis
    by (simp add: trim_samples c sample_parse_canonical p d)
qed

text \<open>
  The claim as it was stated has the token reused unchanged. A stored token with a space at
  each end is a string that is not empty after trimming; the bootstrap uses it without the
  spaces.
\<close>

theorem padded_token_is_trimmed:
  "files (initialState (sampleDisk paddedText)) ''/home/user/.config/tixbot/openclaw.json''
     = Some paddedText
   \<and> JSON_parse samplePlatform paddedText
     = Inr (JObj [(''gateway'', JObj [(''auth'', JObj [(''token'', JStr '' abc '')])])])
   \<and> trim '' abc '' \<noteq> []
   \<and> gatewayToken (ensureGatewayConfig samplePlatform (initialState (sampleDisk paddedText))) = ''abc''
   \<and> gatewayToken (ensureGatewayConfig samplePlatform (initialState (sampleDisk paddedText)))
       \<noteq> '' abc ''"
proof -
  have f: "files (initialState (sampleDisk paddedText))
             (path_join samplePlatform (userData samplePlatform) ''openclaw.json'') = Some paddedText"
    by (simp add: sample_path initialState_def sampleDisk_def)
  have t: "tokenOfParsed paddedJson = ''abc''"
    by (simp add: tokenOfParsed_def paddedJson_def trim_samples)
  then have n: "tokenOfParsed paddedJson \<noteq> []" by simp
  have g: "gatewayToken (ensureGatewayConfig samplePlatform (initialState (sampleDisk paddedText)))
             = ''abc''"
    by (simp add: ensure_reuse [OF f sample_parse(2) n] t)
  have d: "files (initialState (sampleDisk paddedText)) ''/home/user/.config/tixbot/openclaw.json''
             = Some paddedText"
    by (simp add: initialState_def sampleDisk_def)
  have p: "JSON_parse samplePlatform paddedText
             = Inr (JObj [(''gateway'', JObj [(''auth'', JObj [(''token'', JStr '' abc '')])])])"
    by (simp add: sample_parse(2) paddedJson_def)
  show ?thesis
    by (simp add: g d p trim_samples)
qed

subsection \<open>C2: starting while a handle is live\<close>

text \<open>
  Claim C2. In every state in which the process handle holds a child process, \<open>startGateway\<close>
  returns the state it was given: no second call of \<^verbatim>\<open>spawn\<close>, no line in the log, no
  other change. Over every sequence of events from the initial state, the number of
  \<^verbatim>\<open>spawn\<close> calls is at most one more than the number of exit and error events that
  cleared the handle, so a new child is only spawned after the handle of the last one
  was cleared.
\<close>

theorem start_noop_while_handle_live:
  "(gatewayProcess s = Obj p \<longrightarrow> startGateway pf rootDir s = s)
   \<and> length (spawnCalls (run pf es (initialState fs))) \<le> Suc (length (filter clearsHandle es))"
proof -
  have "length (spawnCalls (run pf es (initialState fs))) \<le> Suc (length (filter clearsHandle es))"
    using run_budget [of pf es "initialState fs"] by (simp add: initialState_def split: if_splits)
  then show ?thesis by (simp add: startGateway_live)
qed

text \<open>
  On the sample installation: a second start while the gateway runs changes nothing, and
  closing and reopening the window twice leaves one \<^verbatim>\<open>spawn\<close> call.
\<close>

theorem start_noop_while_handle_live_witness:
  "startGateway samplePlatform ''/opt/tixbot/resources'' sampleRunning = sampleRunning
   \<and> length (spawnCalls (run samplePlatform [AppReady, WindowClosed, AppActivate, WindowClosed, AppActivate]
                 (initialState Map.empty))) \<le> 1"
  using start_noop_while_handle_live
    [of sampleRunning 0 samplePlatform "''/opt/tixbot/resources''"
        "[AppReady, WindowClosed, AppActivate, WindowClosed, AppActivate]" Map.empty]
  by (simp add: sampleRunning_process)

subsection \<open>C3: the bound on retries\<close>

text \<open>
  Claim C3, as amended. The retry counter is set to 0 when the shell starts and is never set
  back. In every state, 21 load failures in a row whose address begins with
  \<^verbatim>\<open>http://127.0.0.1\<close> set exactly as many timers as the counter is short of 20, each of
  500 ms, and the 21st failure sets none. When the counter is 0 these are exactly 20 timers,
  all set by the first 20 failures. In a state reached from the initial state the timers
  set since the start are then exactly 20 in all. The address that \<open>buildControlUiUrl\<close>
  builds is such an address in every state. Over every sequence of events from the initial
  state, at most 20 timers are ever set.
\<close>

theorem retries_left_after_earlier_failures:
  assumes "length es = 21" and "list_all loopbackFailure es"
  shows "setTimeoutCalls (run pf es s) = setTimeoutCalls s @ replicate (20 - uiRetries s) 500
       \<and> setTimeoutCalls (run pf es s) = setTimeoutCalls (run pf (take 20 es) s)
       \<and> (uiRetries s = 0 \<longrightarrow>
            setTimeoutCalls (run pf es s) = setTimeoutCalls s @ replicate 20 500
            \<and> setTimeoutCalls (run pf (take 20 es) s) = setTimeoutCalls s @ replicate 20 500
            \<and> uiRetries (run pf es s) = 20)
       \<and> setTimeoutCalls (run pf es (run pf trace (initialState fs))) = replicate 20 500
       \<and> loopbackFailure (DidFailLoad code desc (buildControlUiUrl s'))
       \<and> length (setTimeoutCalls (run pf trace (initialState fs))) \<le> 20"
proof -
  have a: "list_all loopbackFailure (take 20 es)"
    using assms(2) by (simp add: list_all_iff) (meson in_set_takeD)
  have b: "setTimeoutCalls (run pf es x) = setTimeoutCalls x @ replicate (20 - uiRetries x) 500"
    and b': "uiRetries (run pf es x) = uiRetries x + (20 - uiRetries x)" for x
    using run_loopback [OF assms(2), of pf x] assms(1) by simp_all
  have c: "setTimeoutCalls (run pf (take 20 es) s)
             = setTimeoutCalls s @ replicate (20 - uiRetries s) 500"
    using run_loopback [OF a, of pf s] assms(1) by simp
  have "uiRetries (initialState fs) \<le> 20"
       "setTimeoutCalls (initialState fs) = replicate (uiRetries (initialState fs)) 500"
    by (simp_all add: initialState_def)
  from run_retry_inv [OF this, of pf trace]
  have le: "uiRetries (run pf trace (initialState fs)) \<le> 20"
    and eq: "setTimeoutCalls (run pf trace (initialState fs))
               = replicate (uiRetries (run pf trace (initialState fs))) 500"
    by blast+
  have d: "length (setTimeoutCalls (run pf trace (initialState fs))) \<le> 20"
    by (subst eq) (simp add: le)
  have "setTimeoutCalls (run pf es (run pf trace (initialState fs)))
          = replicate (uiRetries (run pf trace (initialState fs))) 500
            @ replicate (20 - uiRetries (run pf trace (initialState fs))) 500"
    by (subst b) (subst eq, rule refl)
  also have "\<dots> = replicate 20 500"
    using le by (simp add: replicate_add [symmetric])
  finally have t: "setTimeoutCalls (run pf es (run pf trace (initialState fs))) = replicate 20 500" .
  show ?thesis
    using b [of s] b' [of s] c d t by (simp add: url_prefix)
qed

text \<open>
  On the sample installation, with the control UI refusing 21 times: right after the first
  start, and after one earlier failure.
\<close>

theorem retries_left_after_earlier_failures_witness:
  "setTimeoutCalls (run samplePlatform (replicate 21 sampleFailure) sampleRunning) = replicate 20 500
   \<and> setTimeoutCalls (run samplePlatform (replicate 20 sampleFailure) sampleRunning) = replicate 20 500
   \<and> uiRetries (run samplePlatform (replicate 21 sampleFailure) sampleRunning) = 20
   \<and> setTimeoutCalls (run samplePlatform (replicate 21 sampleFailure) sampleReopened)
       = [500] @ replicate 19 500"
proof -
  have u: "uiRetries sampleRunning = 0" and t: "setTimeoutCalls sampleRunning = []"
    by (simp_all add: sampleRunning_def createWindow_frame initialState_def)
  have l: "length (replicate 21 sampleFailure) = 21"
    by simp
  have a: "list_all loopbackFailure (replicate 21 sampleFailure)"
    by (simp add: list_all_iff sampleFailure_loopback)
  from retries_left_after_earlier_failures [OF l a, of samplePlatform sampleRunning]
       retries_left_after_earlier_failures [OF l a, of samplePlatform sampleReopened]
  show ?thesis
    by (simp add: u t sampleReopened_counter)
qed

text \<open>
  The claim as it was stated gives every run of 21 failures 20 retries. After one earlier
  failure and a window closed and opened again, 21 failures in a row set 19 timers; after 20
  earlier failures, they set none.
\<close>

theorem reopened_window_gets_fewer_retries:
  "uiRetries sampleReopened = 1
   \<and> drop (length (setTimeoutCalls sampleReopened))
        (setTimeoutCalls (run samplePlatform (replicate 21 sampleFailure) sampleReopened))
       = replicate 19 500
   \<and> uiRetries sampleExhausted = 20
   \<and> setTimeoutCalls (run samplePlatform (replicate 21 sampleFailure) sampleExhausted)
       = setTimeoutCalls sampleExhausted"
proof -
  have a: "list_all loopbackFailure (replicate 21 sampleFailure)"
    by (simp add: list_all_iff sampleFailure_loopback)
  note r = run_loopback [OF a, of samplePlatform sampleReopened]
  note x = run_loopback [OF a, of samplePlatform sampleExhausted]
  show ?thesis
    using r x by (simp add: sampleReopened_counter sampleExhausted_counter)
qed

subsection \<open>C4: failures on other addresses\<close>

text \<open>
  The listener tests the text of the address: a failure whose address does not begin
  with \<^verbatim>\<open>http://127.0.0.1\<close> sets no timer and leaves the retry counter as it was.
\<close>

lemma no_retry_without_prefix:
  "\<not> startsWith url ''http://127.0.0.1'' \<Longrightarrow>
     setTimeoutCalls (onDidFailLoad code desc url s) = setTimeoutCalls s
     \<and> uiRetries (onDidFailLoad code desc url s) = uiRetries s"
  by (simp add: onDidFailLoad_def logWrite_def Let_def)

text \<open>
  Claim C4 says that a load failure on an address that is not a loopback address sets no
  retry. The address \<^verbatim>\<open>http://127.0.0.1.example.com/\<close> names the host
  \<^verbatim>\<open>127.0.0.1.example.com\<close>, which is not a loopback host, yet it begins with the text the
  listener tests for: the listener counts a retry and sets a timer.
\<close>

theorem lookalike_host_is_retried:
  "setTimeoutCalls (onDidFailLoad (- 105) ''ERR_NAME_NOT_RESOLVED''
       ''http://127.0.0.1.example.com/'' (initialState Map.empty)) = [500]
   \<and> uiRetries (onDidFailLoad (- 105) ''ERR_NAME_NOT_RESOLVED''
       ''http://127.0.0.1.example.com/'' (initialState Map.empty)) = 1"
  by (simp add: onDidFailLoad_def logWrite_def Let_def startsWith_def initialState_def)

subsection \<open>C5: a file that does not parse\<close>

text \<open>
  Claim C5. When the configuration file exists and \<^verbatim>\<open>JSON.parse\<close> throws on its
  content, the bootstrap catches the exception and ends in a state: it logs one warning that
  carries the exception and then the line that reports the write; it takes as the token the
  hexadecimal form of the next 24 bytes of the random source, 48 characters; and it replaces
  the file with the serialized minimal configuration that holds this token, a configuration
  whose token the bootstrap itself reads back unchanged.
\<close>

theorem corrupt_config_is_replaced:
  assumes stored: "files s (path_join pf (userData pf) ''openclaw.json'') = Some raw"
      and bad: "JSON_parse pf raw = Inl err"
  shows "logLines (ensureGatewayConfig pf s) =
           logLines s @ [(''warn'', ''Failed to parse config, regenerating: '' @ err),
                         (''info'', ''Wrote gateway config: ''
                            @ path_join pf (userData pf) ''openclaw.json'')]
       \<and> gatewayToken (ensureGatewayConfig pf s) =
           toHex (map (randomSource pf) [randomDrawn s ..< randomDrawn s + 24])
       \<and> randomDrawn (ensureGatewayConfig pf s) = randomDrawn s + 24
       \<and> length (gatewayToken (ensureGatewayConfig pf s)) = 48
       \<and> files (ensureGatewayConfig pf s) (path_join pf (userData pf) ''openclaw.json'') =
           Some (JSON_stringify (buildMinimalGatewayConfig s (gatewayToken (ensureGatewayConfig pf s)))
                 @ [CHR 0x0A])
       \<and> tokenOfParsed (buildMinimalGatewayConfig s (gatewayToken (ensureGatewayConfig pf s)))
           = gatewayToken (ensureGatewayConfig pf s)"
proof -
  have none: "case files s (path_join pf (userData pf) ''openclaw.json'') of
                None \<Rightarrow> True
              | Some raw \<Rightarrow> (case JSON_parse pf raw of
                              Inl err \<Rightarrow> True
                            | Inr parsed \<Rightarrow> tokenOfParsed parsed = [])"
    by (simp add: stored bad)
  note gen = ensure_generate [OF none]
  have "trim (gatewayToken (ensureGatewayConfig pf s)) = gatewayToken (ensureGatewayConfig pf s)"
    unfolding gen(1) by (rule trim_hex) (rule toHex_lower)
  then show ?thesis
    by (simp add: ensure_corrupt_log [OF stored bad] gen(1,2) ensure_file length_toHex
        tokenOfParsed_config)
qed

text \<open>On the sample installation, whose file holds text that is not JSON.\<close>

theorem corrupt_config_is_replaced_witness:
  "logLines (ensureGatewayConfig samplePlatform (initialState (sampleDisk corruptText))) =
     [(''warn'', ''Failed to parse config, regenerating: SyntaxError: Unexpected token n in JSON at position 1''),
      (''info'', ''Wrote gateway config: /home/user/.config/tixbot/openclaw.json'')]
   \<and> gatewayToken (ensureGatewayConfig samplePlatform (initialState (sampleDisk corruptText)))
       = ''030a11181f262d343b424950575e656c737a81888f969da4''
   \<and> randomDrawn (ensureGatewayConfig samplePlatform (initialState (sampleDisk corruptText))) = 24"
proof -
  have f: "files (initialState (sampleDisk corruptText))
             (path_join samplePlatform (userData samplePlatform) ''openclaw.json'') = Some corruptText"
    by (simp add: sample_path initialState_def sampleDisk_def)
  have l: "logLines (initialState (sampleDisk corruptText)) = []"
    and d: "randomDrawn (initialState (sampleDisk corruptText)) = 0"
    by (simp_all add: initialState_def)
  from corrupt_config_is_replaced [OF f sample_parse(3)]
  show ?thesis
    by (simp add: l d sample_random sample_path)
qed

subsection \<open>C6: the shape of a generated token\<close>

text \<open>
  Claim C6. When the file is absent, does not parse, or holds no usable token, the token
  after the bootstrap is the hexadecimal form of the next 24 bytes that
  \<^verbatim>\<open>crypto.randomBytes\<close> hands out: 48 characters, each a digit or a letter from a to f.
  The same holds for every result of \<open>generateToken\<close>.
\<close>

theorem generated_token_is_48_lowercase_hex:
  assumes "case files s (path_join pf (userData pf) ''openclaw.json'') of
             None \<Rightarrow> True
           | Some raw \<Rightarrow> (case JSON_parse pf raw of
                           Inl err \<Rightarrow> True
                         | Inr parsed \<Rightarrow> tokenOfParsed parsed = [])"
  shows "gatewayToken (ensureGatewayConfig pf s) =
           toHex (map (randomSource pf) [randomDrawn s ..< randomDrawn s + 24])
       \<and> length (map (randomSource pf) [randomDrawn s ..< randomDrawn s + 24]) = 24
       \<and> length (gatewayToken (ensureGatewayConfig pf s)) = 48
       \<and> list_all isLowerHex (gatewayToken (ensureGatewayConfig pf s))
       \<and> fst (generateToken pf s) = toHex (fst (randomBytes pf 24 s))
       \<and> length (fst (randomBytes pf 24 s)) = 24
       \<and> length (fst (generateToken pf s)) = 48
       \<and> list_all isLowerHex (fst (generateToken pf s))"
  by (simp add: ensure_generate(1) [OF assms] generateToken_def randomBytes_def length_toHex
      toHex_lower)

text \<open>On the sample installation with no file on disk.\<close>

theorem generated_token_is_48_lowercase_hex_witness:
  "gatewayToken (ensureGatewayConfig samplePlatform (initialState Map.empty))
     = ''030a11181f262d343b424950575e656c737a81888f969da4''
   \<and> length (gatewayToken (ensureGatewayConfig samplePlatform (initialState Map.empty))) = 48
   \<and> list_all isLowerHex (gatewayToken (ensureGatewayConfig samplePlatform (initialState Map.empty)))"
proof -
  have n: "case files (initialState Map.empty)
                  (path_join samplePlatform (userData samplePlatform) ''openclaw.json'') of
             None \<Rightarrow> True
           | Some raw \<Rightarrow> (case JSON_parse samplePlatform raw of
                           Inl err \<Rightarrow> True
                         | Inr parsed \<Rightarrow> tokenOfParsed parsed = [])"
    by (simp add: initialState_def)
  have d: "randomDrawn (initialState Map.empty) = 0"
    by (simp add: initialState_def)
  from generated_token_is_48_lowercase_hex [OF n]
  show ?thesis
    by (simp add: d sample_random isLowerHex_def)
qed

subsection \<open>C7: one token for the file, the child and the address\<close>

text \<open>
  Claim C7. After \<open>createWindow\<close> ran from a state without a child process (the
  bootstrap, then the start, then the address), the address built by \<open>buildControlUiUrl\<close>
  is \<^verbatim>\<open>http://127.0.0.1:\<close>, the port, \<^verbatim>\<open>/?token=\<close> and the URL-encoded token; the encoded
  token holds no \<^verbatim>\<open>&\<close>, so it is a single parameter, and it is the token itself when the
  token needs no encoding. This address is stored in \<open>controlUiUrl\<close> and is the one
  loaded. The same token is in the configuration file as written, in the \<^verbatim>\<open>--token\<close>
  argument of the \<^verbatim>\<open>spawn\<close> call and in the environment of the child.
\<close>

theorem control_ui_url_carries_the_spawned_token:
  assumes "\<not> truthyRef (gatewayProcess s)" and "c = createWindow pf s"
  shows "buildControlUiUrl c =
           ''http://127.0.0.1:'' @ decimal (gatewayPort c) @ ''/?token='' @ urlencode (gatewayToken c)
       \<and> CHR ''&'' \<notin> set (urlencode (gatewayToken c))
       \<and> (list_all urlSafe (gatewayToken c) \<longrightarrow>
            buildControlUiUrl c =
              ''http://127.0.0.1:'' @ decimal (gatewayPort c) @ ''/?token='' @ gatewayToken c)
       \<and> controlUiUrl c = buildControlUiUrl c
       \<and> snd (last (loadURLCalls c)) = buildControlUiUrl c
       \<and> files c (gatewayConfigPath c) =
            Some (JSON_stringify (buildMinimalGatewayConfig c (gatewayToken c)) @ [CHR 0x0A])
       \<and> getProp (JObj [(''mode'', JStr ''token''), (''token'', JStr (gatewayToken c))]) ''token''
            = Some (JStr (gatewayToken c))
       \<and> spawnArgs (last (spawnCalls c)) =
            [path_join pf (resolveRootDir pf) ''openclaw.mjs'', ''gateway'', ''--allow-unconfigured'',
             ''--auth'', ''token'', ''--token'', gatewayToken c, ''--port'',
             decimal (gatewayPort c), ''--bind'', ''loopback'']
       \<and> spawnEnv (last (spawnCalls c)) ''OPENCLAW_GATEWAY_TOKEN'' = Some (gatewayToken c)"
  unfolding assms(2)
  by (simp add: buildControlUiUrl_eq urlencode_no_amp urlencode_safe createWindow_url
      createWindow_file createWindow_call [OF assms(1)])

text \<open>On the sample installation after its first start.\<close>

theorem control_ui_url_carries_the_spawned_token_witness:
  "controlUiUrl sampleRunning
     = ''http://127.0.0.1:18789/?token=030a11181f262d343b424950575e656c737a81888f969da4''
   \<and> buildControlUiUrl sampleRunning
     = ''http://127.0.0.1:18789/?token=030a11181f262d343b424950575e656c737a81888f969da4''
   \<and> spawnArgs (last (spawnCalls sampleRunning))
     = [''/opt/tixbot/resources/openclaw.mjs'', ''gateway'', ''--allow-unconfigured'', ''--auth'',
        ''token'', ''--token'', ''030a11181f262d343b424950575e656c737a81888f969da4'', ''--port'',
        ''18789'', ''--bind'', ''loopback'']
   \<and> files sampleRunning ''/home/user/.config/tixbot/openclaw.json''
     = Some (JSON_stringify (buildMinimalGatewayConfig sampleRunning
               ''030a11181f262d343b424950575e656c737a81888f969da4'') @ [CHR 0x0A])"
proof -
  have i: "\<not> truthyRef (gatewayProcess (initialState Map.empty))"
    by (simp add: initialState_def)
  have "gatewayToken sampleRunning = toHex (map (randomSource samplePlatform) [0..<24])"
    by (simp only: sampleRunning_token sample_random)
  then have s: "list_all urlSafe (gatewayToken sampleRunning)"
    by (simp only: toHex_urlSafe)
  then have e: "urlencode ''030a11181f262d343b424950575e656c737a81888f969da4''
                  = ''030a11181f262d343b424950575e656c737a81888f969da4''"
    using urlencode_safe [of "gatewayToken sampleRunning"] by (simp only: sampleRunning_token)
  have r: "path_join samplePlatform (resolveRootDir samplePlatform) ''openclaw.mjs''
             = ''/opt/tixbot/resources/openclaw.mjs''"
    by (simp add: samplePlatform_def resolveRootDir_def)
  have p: "gatewayConfigPath sampleRunning = ''/home/user/.config/tixbot/openclaw.json''"
    by (simp add: sampleRunning_def createWindow_file sample_path)
  from control_ui_url_carries_the_spawned_token [OF i sampleRunning_def]
  show ?thesis
    by (simp add: sampleRunning_token sampleRunning_port decimal_18789 r p e)
qed

subsection \<open>C8: exit and error of the child process\<close>

text \<open>
  Claim C8. The exit listener writes one line to the log that records the exit code and the
  signal, each replaced by \<^verbatim>\<open>null\<close> when absent, and clears the process handle; the
  error listener writes one line with the stack of the error, or its rendering when it has
  no stack, and clears the handle. Neither changes anything else: the list of \<^verbatim>\<open>spawn\<close>
  calls stays as it was, so nothing is spawned again by the listeners. A later
  \<open>startGateway\<close> spawns one more child and holds its handle.
\<close>

theorem exit_and_error_release_handle:
  "onGatewayExit code signal s =
     s\<lparr>logLines := logLines s @
          [(''error'', ''gateway exited: code=''
              @ (case code of None \<Rightarrow> ''null'' | Some c \<Rightarrow> showInt c)
              @ '' signal='' @ (case signal of None \<Rightarrow> ''null'' | Some sg \<Rightarrow> sg))],
       gatewayProcess := Null\<rparr>
   \<and> onGatewayError stack rendered s =
     s\<lparr>logLines := logLines s @
          [(''error'', ''gateway spawn error: ''
              @ (case stack of None \<Rightarrow> rendered
                 | Some st \<Rightarrow> if st \<noteq> [] then st else rendered))],
       gatewayProcess := Null\<rparr>
   \<and> spawnCalls (onGatewayExit code signal s) = spawnCalls s
   \<and> spawnCalls (onGatewayError stack rendered s) = spawnCalls s
   \<and> length (spawnCalls (startGateway pf rootDir (onGatewayExit code signal s)))
       = Suc (length (spawnCalls s))
   \<and> length (spawnCalls (startGateway pf rootDir (onGatewayError stack rendered s)))
       = Suc (length (spawnCalls s))
   \<and> truthyRef (gatewayProcess (startGateway pf rootDir (onGatewayExit code signal s)))
   \<and> truthyRef (gatewayProcess (startGateway pf rootDir (onGatewayError stack rendered s)))"
  by (simp add: onGatewayExit_def onGatewayError_def logWrite_def Let_def startGateway_idle)

text \<open>
  On the sample installation: the child is ended by a signal, exits with code 1, or fails
  to spawn.
\<close>

theorem exit_and_error_release_handle_witness:
  "gatewayProcess (onGatewayExit None (Some ''SIGTERM'') sampleRunning) = Null
   \<and> last (logLines (onGatewayExit None (Some ''SIGTERM'') sampleRunning))
       = (''error'', ''gateway exited: code=null signal=SIGTERM'')
   \<and> last (logLines (onGatewayExit (Some 1) None sampleRunning))
       = (''error'', ''gateway exited: code=1 signal=null'')
   \<and> gatewayProcess (onGatewayError None ''Error: spawn ENOENT'' sampleRunning) = Null
   \<and> length (spawnCalls (onGatewayExit None (Some ''SIGTERM'') sampleRunning)) = 1
   \<and> length (spawnCalls (startGateway samplePlatform ''/opt/tixbot/resources''
                 (onGatewayExit None (Some ''SIGTERM'') sampleRunning))) = 2"
proof -
  have n: "length (spawnCalls sampleRunning) = 1"
    by (simp add: sampleRunning_def createWindow_process initialState_def)
  note a = exit_and_error_release_handle
             [of None "Some ''SIGTERM''" sampleRunning None "''Error: spawn ENOENT''"
                 samplePlatform "''/opt/tixbot/resources''"]
  note b = exit_and_error_release_handle
             [of "Some 1" None sampleRunning None "''Error: spawn ENOENT''"
                 samplePlatform "''/opt/tixbot/resources''"]
  from a have a1: "gatewayProcess (onGatewayExit None (Some ''SIGTERM'') sampleRunning) = Null"
    and a2: "last (logLines (onGatewayExit None (Some ''SIGTERM'') sampleRunning))
               = (''error'', ''gateway exited: code=null signal=SIGTERM'')"
    and a3: "gatewayProcess (onGatewayError None ''Error: spawn ENOENT'' sampleRunning) = Null"
    by simp_all
  from b have b1: "last (logLines (onGatewayExit (Some 1) None sampleRunning))
               = (''error'', ''gateway exited: code=1 signal=null'')"
    by (simp add: showInt_def decimal.simps digitChar_def)
  from a have a4: "spawnCalls (onGatewayExit None (Some ''SIGTERM'') sampleRunning)
                     = spawnCalls sampleRunning"
    by blast
  from a have a5: "length (spawnCalls (startGateway samplePlatform ''/opt/tixbot/resources''
                     (onGatewayExit None (Some ''SIGTERM'') sampleRunning)))
                   = Suc (length (spawnCalls sampleRunning))"
    by blast
  show ?thesis
    by (simp only: a1 a2 a3 a4 a5 b1 n) simp
qed

subsection \<open>C9: quitting\<close>

text \<open>
  Claim C9, as amended. The quit listener, when the process handle holds a child, sends the
  child a signal and changes nothing else: the handle stays in place. When the handle holds
  no child, the listener changes nothing. Of all events, only the exit and the error of the
  child turn a handle that holds a child into one that holds none.
\<close>

theorem quit_signals_child_and_keeps_handle:
  "(gatewayProcess s = Obj p \<longrightarrow> onQuit s = s\<lparr>killCalls := killCalls s @ [p]\<rparr>)
   \<and> (gatewayProcess s = Obj p \<longrightarrow> gatewayProcess (onQuit s) = Obj p)
   \<and> (\<not> truthyRef (gatewayProcess s) \<longrightarrow> onQuit s = s)
   \<and> (truthyRef (gatewayProcess s) \<and> \<not> truthyRef (gatewayProcess (step pf s e))
        \<longrightarrow> clearsHandle e)"
proof -
  have "truthyRef (gatewayProcess s) \<and> \<not> truthyRef (gatewayProcess (step pf s e))
        \<longrightarrow> clearsHandle e"
    by (cases e)
       (simp_all add: createWindow_process onWindowAllClosed_def onQuit_def onActivate_def
          onWindowClosed_def onDidFailLoad_def onRetryTimer_def onGatewayStdout_def
          onGatewayStderr_def logWrite_def loadURL_def Let_def split: jsref.splits)
  moreover have "\<not> truthyRef (gatewayProcess s) \<longrightarrow> onQuit s = s"
    by (cases "gatewayProcess s") (simp_all add: onQuit_def)
  ultimately show ?thesis
    by (simp add: onQuit_def)
qed

text \<open>On the sample installation, while the gateway runs and before anything was started.\<close>

theorem quit_signals_child_and_keeps_handle_witness:
  "killCalls (onQuit sampleRunning) = [0]
   \<and> gatewayProcess (onQuit sampleRunning) = Obj 0
   \<and> onQuit (initialState Map.empty) = initialState Map.empty
   \<and> clearsHandle (GatewayExit (Some 0) None)"
proof -
  have k: "killCalls sampleRunning = []"
    by (simp add: sampleRunning_def createWindow_frame initialState_def)
  have i: "\<not> truthyRef (gatewayProcess (initialState Map.empty))"
    by (simp add: initialState_def)
  have x: "\<not> truthyRef (gatewayProcess (step samplePlatform sampleRunning (GatewayExit (Some 0) None)))"
    by (simp add: onGatewayExit_def Let_def)
  note a = quit_signals_child_and_keeps_handle
             [of sampleRunning 0 samplePlatform "GatewayExit (Some 0) None"]
  note b = quit_signals_child_and_keeps_handle
             [of "initialState Map.empty" 0 samplePlatform AppQuit]
  show ?thesis
    using a b k i x by (simp add: sampleRunning_process)
qed

text \<open>
  The claim as it was stated has the quit listener release the handle. On the sample
  installation the handle still holds the child after the listener ran, and a second run
  of the listener signals the same child again.
\<close>

theorem quit_leaves_handle_in_place:
  "gatewayProcess sampleRunning = Obj 0
   \<and> gatewayProcess (onQuit sampleRunning) = Obj 0
   \<and> killCalls (onQuit (onQuit sampleRunning)) = [0, 0]"
proof -
  have k: "killCalls sampleRunning = []"
    by (simp add: sampleRunning_def createWindow_frame initialState_def)
  show ?thesis
    by (simp add: onQuit_def sampleRunning_process k)
qed

subsection \<open>C10: the port\<close>

text \<open>
  Claim C10. In every state reached from the initial state by any sequence of events, on any
  platform and with any files on disk, the port is 18789. A bootstrap from such a state
  writes a configuration whose port is 18789 whatever the file held before, a start from
  there passes \<^verbatim>\<open>--port 18789\<close> to the child, and the address of the control UI names
  port 18789.
\<close>

theorem gateway_port_is_constant:
  assumes "s = run pf es (initialState fs)"
  shows "gatewayPort s = 18789
       \<and> gatewayPort (ensureGatewayConfig pf s) = 18789
       \<and> files (ensureGatewayConfig pf s) (path_join pf (userData pf) ''openclaw.json'') =
            Some (JSON_stringify
              (JObj [(''gateway'', JObj
                 [(''mode'', JStr ''local''),
                  (''bind'', JStr ''loopback''),
                  (''port'', JNum 18789),
                  (''auth'', JObj [(''mode'', JStr ''token''),
                                   (''token'', JStr (gatewayToken (ensureGatewayConfig pf s)))]),
                  (''controlUi'', JObj [(''enabled'', JBool True),
                                        (''allowInsecureAuth'', JBool True)])])])
              @ [CHR 0x0A])
       \<and> (\<not> truthyRef (gatewayProcess s) \<longrightarrow>
            spawnArgs (last (spawnCalls (startGateway pf rootDir (ensureGatewayConfig pf s)))) =
              [path_join pf rootDir ''openclaw.mjs'', ''gateway'', ''--allow-unconfigured'', ''--auth'',
               ''token'', ''--token'', gatewayToken (ensureGatewayConfig pf s), ''--port'', ''18789'',
               ''--bind'', ''loopback''])
       \<and> buildControlUiUrl (startGateway pf rootDir (ensureGatewayConfig pf s)) =
            ''http://127.0.0.1:18789/?token='' @ urlencode (gatewayToken (ensureGatewayConfig pf s))"
proof -
  have p: "gatewayPort s = 18789"
    unfolding assms by (simp add: run_port initialState_def)
  show ?thesis
    by (simp add: p ensure_frame ensure_file buildMinimalGatewayConfig_def startGateway_frame
        startGateway_idle_call buildControlUiUrl_eq decimal_18789)
qed

text \<open>On the sample installation, whose file records port 9999.\<close>

theorem gateway_port_is_constant_witness:
  "gatewayPort (initialState (sampleDisk storedText)) = 18789
   \<and> getProp (JObj [(''port'', JNum 9999), (''auth'', JObj [(''token'', JStr ''tok-123'')])]) ''port''
       = Some (JNum 9999)
   \<and> files (ensureGatewayConfig samplePlatform (initialState (sampleDisk storedText)))
        ''/home/user/.config/tixbot/openclaw.json'' =
        Some (JSON_stringify
              (JObj [(''gateway'', JObj
                 [(''mode'', JStr ''local''),
                  (''bind'', JStr ''loopback''),
                  (''port'', JNum 18789),
                  (''auth'', JObj [(''mode'', JStr ''token''), (''token'', JStr ''tok-123'')]),
                  (''controlUi'', JObj [(''enabled'', JBool True),
                                        (''allowInsecureAuth'', JBool True)])])])
              @ [CHR 0x0A])
   \<and> spawnArgs (last (spawnCalls (startGateway samplePlatform ''/opt/tixbot/resources''
         (ensureGatewayConfig samplePlatform (initialState (sampleDisk storedText)))))) =
        [''/opt/tixbot/resources/openclaw.mjs'', ''gateway'', ''--allow-unconfigured'', ''--auth'',
         ''token'', ''--token'', ''tok-123'', ''--port'', ''18789'', ''--bind'', ''loopback'']
   \<and> buildControlUiUrl (startGateway samplePlatform ''/opt/tixbot/resources''
         (ensureGatewayConfig samplePlatform (initialState (sampleDisk storedText)))) =
        ''http://127.0.0.1:18789/?token=tok-123''"
proof -
  have f: "files (initialState (sampleDisk storedText))
             (path_join samplePlatform (userData samplePlatform) ''openclaw.json'') = Some storedText"
    by (simp add: sample_path initialState_def sampleDisk_def)
  have t: "tokenOfParsed storedJson = ''tok-123''"
    by (simp add: tokenOfParsed_def storedJson_def trim_samples)
  then have n: "tokenOfParsed storedJson \<noteq> []" by simp
  have g: "gatewayToken (ensureGatewayConfig samplePlatform (initialState (sampleDisk storedText)))
             = ''tok-123''"
    by (simp add: ensure_reuse [OF f sample_parse(1) n] t)
  have r: "run samplePlatform [] (initialState (sampleDisk storedText))
             = initialState (sampleDisk storedText)"
    by (simp add: run_def)
  have i: "\<not> truthyRef (gatewayProcess (initialState (sampleDisk storedText)))"
    by (simp add: initialState_def)
  have j: "path_join samplePlatform ''/opt/tixbot/resources'' ''openclaw.mjs''
             = ''/opt/tixbot/resources/openclaw.mjs''"
    by (simp add: samplePlatform_def)
  have u: "urlencode ''tok-123'' = ''tok-123''"
    by (simp add: urlencode_def urlencodeByte_def urlSafe_def)
  from gateway_port_is_constant [OF r [symmetric], of "''/opt/tixbot/resources''"] i
  show ?thesis
    by (simp add: g sample_path j u)
qed

end
